theory Spec2Isabelle
  imports Complex_Main
begin

section \<open>Pseudo-label engine of SHOT open-set adaptation: \<open>obtain_label\<close>\<close>

text \<open>
  The development embeds the function \<open>obtain_label\<close> of
  \<open>src/shot/train_target_oda.py\<close> (lines 30 to 106). Tensors and arrays are lists,
  a matrix is the list of its rows, and every row of one tensor has the same length
  (the tensor type guarantees it). Floating-point numbers are read as real numbers; the
  one not-a-number the control flow depends on, the mean of an empty selection at
  line 67, is an explicit \<open>None\<close>. The libraries the function calls are taken as
  parameters: \<open>KMeans(2, random_state=0).fit\<close> of scikit-learn is a function from the
  entropy scores to a fitted object (or an error), and the metric that
  \<open>scipy.spatial.distance.cdist\<close> looks up under a name is a function from the name to a
  distance on vectors. The networks \<open>netF\<close>, \<open>netB\<close> and \<open>netC\<close> are functions applied
  sample by sample.
\<close>

subsection \<open>Data\<close>

type_synonym vec = "real list"
type_synonym matrix = "real list list"

datatype error = UnboundLocalError | ZeroDivisionError | IndexError | ValueError

text \<open>The configuration fields that \<open>obtain_label\<close> reads:
  \<open>cfg.model.distance\<close>, \<open>cfg.model.epsilon\<close>, \<open>cfg.dataset.class_num\<close>,
  \<open>cfg.train.threshold\<close>.\<close>

record cfg =
  distance :: string
  epsilon :: real
  class_num :: nat
  threshold :: real

text \<open>What the code reads from the fitted \<open>KMeans\<close> object: the attributes
  \<open>labels_\<close> (here \<open>km_labels\<close>) and \<open>cluster_centers_\<close> (here \<open>km_cluster_centers\<close>) and the
  method \<open>predict\<close> (here \<open>km_predict\<close>).\<close>

record kmeans =
  km_labels :: "nat list"
  km_cluster_centers :: "real list"
  km_predict :: "vec \<Rightarrow> nat list"

subsection \<open>Array primitives\<close>

text \<open>\<open>torch.nn.Softmax(dim=1)\<close>, row by row.\<close>

definition softmax_row :: "vec \<Rightarrow> vec" where
  "softmax_row xs = map (\<lambda>x. exp x / sum_list (map exp xs)) xs"

definition Softmax :: "matrix \<Rightarrow> matrix" where
  "Softmax m = map softmax_row m"

text \<open>\<open>torch.max(_, 1)\<close> and \<open>argmin(axis=1)\<close> on one row: the index of the first
  maximal (minimal) entry. Both raise on a row of length zero; the callers below check
  for that before they use them.\<close>

fun argmax :: "vec \<Rightarrow> nat" where
  "argmax [] = 0"
| "argmax [x] = 0"
| "argmax (x # y # ys) = (let j = argmax (y # ys) in if (y # ys) ! j \<le> x then 0 else Suc j)"

fun argmin :: "vec \<Rightarrow> nat" where
  "argmin [] = 0"
| "argmin [x] = 0"
| "argmin (x # y # ys) = (let j = argmin (y # ys) in if x \<le> (y # ys) ! j then 0 else Suc j)"

text \<open>\<open>np.where(cond)[0]\<close>: the positions, in increasing order, at which the
  condition holds.\<close>

definition np_where :: "('a \<Rightarrow> bool) \<Rightarrow> 'a list \<Rightarrow> nat list" where
  "np_where P xs = filter (\<lambda>i. P (xs ! i)) [0..<length xs]"

text \<open>Indexing an array by an index array, \<open>a[idx]\<close>. It raises \<open>IndexError\<close> when an
  index is out of range; \<open>in_range\<close> is the check the callers make first.\<close>

definition in_range :: "nat list \<Rightarrow> nat \<Rightarrow> bool" where
  "in_range idx n = list_all (\<lambda>i. i < n) idx"

definition take_idx :: "'a list \<Rightarrow> nat list \<Rightarrow> 'a list" where
  "take_idx xs idx = map (\<lambda>i. xs ! i) idx"

text \<open>The \<open>mean()\<close> of a one-dimensional tensor: not-a-number (\<open>None\<close>) when it is
  empty. A comparison with not-a-number is false.\<close>

definition mean :: "vec \<Rightarrow> real option" where
  "mean xs = (if xs = [] then None else Some (sum_list xs / real (length xs)))"

definition gt_nan :: "real option \<Rightarrow> real option \<Rightarrow> bool" where
  "gt_nan a b = (case (a, b) of (Some x, Some y) \<Rightarrow> y < x | _ \<Rightarrow> False)"

text \<open>\<open>np.eye(K)[labels]\<close>: one one-hot row of length \<open>K\<close> per label.\<close>

definition eye_rows :: "nat \<Rightarrow> nat list \<Rightarrow> matrix" where
  "eye_rows K lbls = map (\<lambda>l. map (\<lambda>k. if k = l then 1 else 0) [0..<K]) lbls"

text \<open>\<open>m.sum(axis=0)\<close> of a matrix with \<open>K\<close> columns.\<close>

definition sum_axis0 :: "nat \<Rightarrow> matrix \<Rightarrow> vec" where
  "sum_axis0 K m = map (\<lambda>k. sum_list (map (\<lambda>r. r ! k) m)) [0..<K]"

text \<open>\<open>aff.transpose().dot(all_fea)\<close>: a \<open>K\<close> by \<open>D\<close> matrix whose entry \<open>(k, d)\<close> is
  the sum over the samples of \<open>aff[i][k] * all_fea[i][d]\<close>.\<close>

definition transpose_dot :: "nat \<Rightarrow> nat \<Rightarrow> matrix \<Rightarrow> matrix \<Rightarrow> matrix" where
  "transpose_dot K D aff fea =
     map (\<lambda>k. map (\<lambda>d. sum_list (map2 (\<lambda>a f. a ! k * f ! d) aff fea)) [0..<D]) [0..<K]"

text \<open>\<open>cdist(XA, XB, metric)\<close>: the matrix of the distances between the rows of
  \<open>XA\<close> and the rows of \<open>XB\<close>.\<close>

definition cdist :: "matrix \<Rightarrow> matrix \<Rightarrow> (vec \<Rightarrow> vec \<Rightarrow> real) \<Rightarrow> matrix" where
  "cdist XA XB d = map (\<lambda>x. map (\<lambda>c. d x c) XB) XA"

text \<open>The assignment \<open>a[idx] = vals\<close>, position by position.\<close>

fun scatter :: "'a list \<Rightarrow> nat list \<Rightarrow> 'a list \<Rightarrow> 'a list" where
  "scatter a (i # idx) (v # vals) = scatter (a[i := v]) idx vals"
| "scatter a _ _ = a"

subsection \<open>Lines 34 to 49: one pass over the loader\<close>

text \<open>A batch \<open>data\<close> is the list of its samples, each the pair of \<open>data[0]\<close> (the
  input) and \<open>data[1]\<close> (the ground-truth label). The accumulators are the three
  tensors \<open>all_fea\<close>, \<open>all_output\<close> and \<open>all_label\<close>; the first batch initialises them
  and every later batch is concatenated at the end.\<close>

fun gather ::
  "('i \<Rightarrow> 'f) \<Rightarrow> ('f \<Rightarrow> vec) \<Rightarrow> (vec \<Rightarrow> vec) \<Rightarrow> ('i \<times> real) list list
     \<Rightarrow> matrix \<times> matrix \<times> vec \<Rightarrow> matrix \<times> matrix \<times> vec" where
  "gather netF netB netC [] acc = acc"
| "gather netF netB netC (data # rest) (all_fea, all_output, all_label) =
     (let inputs = map fst data;
          labels = map snd data;
          feas = map (\<lambda>x. netB (netF x)) inputs;
          outputs = map netC feas
      in gather netF netB netC rest
           (all_fea @ feas, all_output @ outputs, all_label @ labels))"

subsection \<open>Lines 54 to 59: feature normalisation and the entropy score\<close>

text \<open>Lines 55 and 56: a constant coordinate 1 is appended to every feature vector,
  which is then divided by its Euclidean norm.\<close>

definition norm2 :: "vec \<Rightarrow> real" where
  "norm2 v = sqrt (sum_list (map (\<lambda>x. x * x) v))"

definition cosine_prep :: "matrix \<Rightarrow> matrix" where
  "cosine_prep fea = map (\<lambda>r. let a = r @ [1] in map (\<lambda>x. x / norm2 a) a) fea"

text \<open>Line 58, for one row: \<open>sum(-p * log(p + epsilon)) / log(class_num)\<close>.\<close>

definition Entropy :: "real \<Rightarrow> nat \<Rightarrow> vec \<Rightarrow> real" where
  "Entropy eps K p = sum_list (map (\<lambda>x. - x * ln (x + eps)) p) / ln (real K)"

subsection \<open>Lines 61 to 75: the open-set split\<close>

text \<open>Lines 63 to 68: the index \<open>iidx\<close> of the cluster that is taken as unknown. The
  mean entropy of cluster 1 (of the labels that \<open>predict\<close> returned) is compared with
  the mean entropy of the whole dataset.\<close>

definition iidx_of :: "vec \<Rightarrow> nat list \<Rightarrow> nat" where
  "iidx_of ent labels =
     (let idx = np_where (\<lambda>l. l = 1) labels
      in if gt_nan (mean (take_idx ent idx)) (mean ent) then 1 else 0)"

text \<open>Line 69: the samples whose fitted label differs from \<open>iidx\<close>.\<close>

definition known_idx_of :: "kmeans \<Rightarrow> nat \<Rightarrow> nat list" where
  "known_idx_of km iidx = np_where (\<lambda>l. l \<noteq> iidx) (km_labels km)"

text \<open>Line 75: the mean of the array of cluster centers.\<close>

definition ENT_THRESHOLD_of :: "kmeans \<Rightarrow> real" where
  "ENT_THRESHOLD_of km = sum_list (km_cluster_centers km) / real (length (km_cluster_centers km))"

subsection \<open>Lines 77 to 96: prototypes, label set and nearest-prototype assignment\<close>

text \<open>Lines 80 and 81 (and 92 and 93): the prototypes \<open>initc\<close> for the weights
  \<open>aff\<close>.\<close>

definition initc_of :: "nat \<Rightarrow> nat \<Rightarrow> matrix \<Rightarrow> matrix \<Rightarrow> matrix" where
  "initc_of K D aff fea =
     map2 (\<lambda>row s. map (\<lambda>x. x / (1 / 100000000 + s)) row)
       (transpose_dot K D aff fea) (sum_axis0 K aff)"

text \<open>Line 82: the number of samples of each class in a hard prediction.\<close>

definition cls_count_of :: "nat \<Rightarrow> nat list \<Rightarrow> vec" where
  "cls_count_of K predict = sum_axis0 K (eye_rows K predict)"

text \<open>Lines 83 and 84: the classes whose count is above the threshold.\<close>

definition labelset_of :: "real \<Rightarrow> vec \<Rightarrow> nat list" where
  "labelset_of thr cls_count = np_where (\<lambda>c. thr < c) cls_count"

text \<open>Lines 86 to 88 (and 94 to 96): the distances to the prototypes of the label
  set, the nearest one for every sample, and its class. \<open>argmin\<close> along an axis of
  length zero raises \<open>ValueError\<close>.\<close>

definition assign ::
  "(vec \<Rightarrow> vec \<Rightarrow> real) \<Rightarrow> matrix \<Rightarrow> matrix \<Rightarrow> nat list \<Rightarrow> error + nat list" where
  "assign d fea initc labelset =
     (let dd = cdist fea (take_idx initc labelset) d
      in if labelset = [] then Inl ValueError
         else Inr (map (\<lambda>row. labelset ! argmin row) dd))"

text \<open>Lines 91 to 96: one round of the loop, from the labels of the round before.\<close>

definition round_step ::
  "(vec \<Rightarrow> vec \<Rightarrow> real) \<Rightarrow> nat \<Rightarrow> nat \<Rightarrow> matrix \<Rightarrow> nat list \<Rightarrow> nat list
     \<Rightarrow> error + nat list" where
  "round_step d K D fea labelset pred_label =
     (let aff = eye_rows K pred_label;
          initc = initc_of K D aff fea
      in assign d fea initc labelset)"

text \<open>Line 90: \<open>for round in range(n)\<close>; the source has \<open>n = 1\<close>.\<close>

fun rounds ::
  "nat \<Rightarrow> (vec \<Rightarrow> vec \<Rightarrow> real) \<Rightarrow> nat \<Rightarrow> nat \<Rightarrow> matrix \<Rightarrow> nat list \<Rightarrow> nat list
     \<Rightarrow> error + nat list" where
  "rounds 0 d K D fea labelset pred_label = Inr pred_label"
| "rounds (Suc n) d K D fea labelset pred_label =
     (case round_step d K D fea labelset pred_label of
        Inl e \<Rightarrow> Inl e
      | Inr pred_label' \<Rightarrow> rounds n d K D fea labelset pred_label')"

text \<open>Lines 79 to 88: the pass with the soft weights (round 0). \<open>aff\<close> is the softmax
  output of the known samples and \<open>predict\<close> the classifier's own prediction for
  them.\<close>

definition round0 ::
  "(vec \<Rightarrow> vec \<Rightarrow> real) \<Rightarrow> real \<Rightarrow> nat \<Rightarrow> nat \<Rightarrow> matrix \<Rightarrow> matrix \<Rightarrow> nat list
     \<Rightarrow> error + nat list" where
  "round0 d thr K D fea aff predict =
     (let initc = initc_of K D aff fea;
          cls_count = cls_count_of K predict;
          labelset = labelset_of thr cls_count
      in assign d fea initc labelset)"

text \<open>Lines 77 to 96 together, with the number of rounds of the loop as a parameter.\<close>

definition refine ::
  "nat \<Rightarrow> (vec \<Rightarrow> vec \<Rightarrow> real) \<Rightarrow> real \<Rightarrow> nat \<Rightarrow> nat \<Rightarrow> matrix \<Rightarrow> matrix \<Rightarrow> nat list
     \<Rightarrow> error + nat list" where
  "refine n d thr K D fea aff predict =
     (case round0 d thr K D fea aff predict of
        Inl e \<Rightarrow> Inl e
      | Inr pred_label \<Rightarrow>
          rounds n d K D fea (labelset_of thr (cls_count_of K predict)) pred_label)"

subsection \<open>Lines 53, 98 to 106: accuracies for the log, and the result\<close>

definition count_eq :: "vec \<Rightarrow> vec \<Rightarrow> nat" where
  "count_eq xs ys = length (filter (\<lambda>(x, y). x = y) (zip xs ys))"

text \<open>The value returned at line 106 is the pair of \<open>guess_label\<close> and
  \<open>ENT_THRESHOLD\<close>. The string written to the log at line 104 holds the threshold and
  the two accuracies \<open>before_acc\<close> and \<open>after_acc\<close>; the second is a division of
  \<open>numpy\<close> by the number of known samples, which gives no finite number (\<open>None\<close>)
  when there is none.\<close>

record outcome =
  guess_label :: "nat list"
  ENT_THRESHOLD :: real
  before_acc :: real
  after_acc :: "real option"

text \<open>Line 106: the pair that the function returns.\<close>

definition returned :: "outcome \<Rightarrow> nat list \<times> real" where
  "returned r = (guess_label r, ENT_THRESHOLD r)"

text \<open>Line 53.\<close>

definition before_acc_of :: "nat list \<Rightarrow> vec \<Rightarrow> real" where
  "before_acc_of predict all_label =
     real (count_eq (map real predict) all_label) / real (length all_label)"

text \<open>Lines 98 and 99.\<close>

definition guess_label_of :: "nat \<Rightarrow> nat \<Rightarrow> nat list \<Rightarrow> nat list \<Rightarrow> nat list" where
  "guess_label_of cn n known_idx pred_label = scatter (replicate n cn) known_idx pred_label"

text \<open>Line 101.\<close>

definition after_acc_of :: "nat list \<Rightarrow> vec \<Rightarrow> nat list \<Rightarrow> real option" where
  "after_acc_of guess all_label known_idx =
     (if known_idx = [] then None
      else Some (real (count_eq (map real guess) all_label) / real (length known_idx)))"

subsection \<open>Lines 51 to 106: the label pass on the gathered tensors\<close>

text \<open>Line 52 and line 58, on the softmax output.\<close>

definition predict_of :: "matrix \<Rightarrow> nat list" where
  "predict_of all_output = map argmax all_output"

definition ent_of :: "cfg \<Rightarrow> matrix \<Rightarrow> vec" where
  "ent_of c all_output = map (Entropy (epsilon c) (class_num c)) all_output"

text \<open>Lines 54 to 56.\<close>

definition fea_of :: "cfg \<Rightarrow> matrix \<Rightarrow> matrix" where
  "fea_of c all_fea = (if distance c = ''cosine'' then cosine_prep all_fea else all_fea)"

text \<open>Lines 63 to 106, once the clustering is fitted. \<open>all_fea\<close> is the feature
  matrix after line 56 and \<open>all_output\<close> the softmax output. \<open>K\<close> and \<open>D\<close> are the
  numbers of columns of the two tensors; line 78 reads \<open>K\<close> from the rows of the known
  samples, and a tensor keeps its number of columns when it has no row.\<close>

definition known_pass ::
  "(string \<Rightarrow> vec \<Rightarrow> vec \<Rightarrow> real) \<Rightarrow> cfg \<Rightarrow> kmeans \<Rightarrow> matrix \<Rightarrow> matrix \<Rightarrow> vec
     \<Rightarrow> error + outcome" where
  "known_pass metric c km all_fea all_output all_label =
     (let N = length all_label;
          predict = predict_of all_output;
          ent = ent_of c all_output;
          labels = km_predict km ent;
          idx = np_where (\<lambda>l. l = 1) labels;
          iidx = iidx_of ent labels;
          known_idx = known_idx_of km iidx;
          K = length (hd all_output);
          D = length (hd all_fea)
      in if \<not> in_range idx N then Inl IndexError
         else if \<not> in_range known_idx N then Inl IndexError
         else case refine 1 (metric (distance c)) (threshold c) K D
                     (take_idx all_fea known_idx) (take_idx all_output known_idx)
                     (take_idx predict known_idx) of
                Inl e \<Rightarrow> Inl e
              | Inr pred_label \<Rightarrow>
                  Inr \<lparr>guess_label = guess_label_of (class_num c) N known_idx pred_label,
                       ENT_THRESHOLD = ENT_THRESHOLD_of km,
                       before_acc = before_acc_of predict all_label,
                       after_acc =
                         after_acc_of (guess_label_of (class_num c) N known_idx pred_label)
                           all_label known_idx\<rparr>)"

text \<open>Lines 51 to 62, then the rest. The three tensors have one row per sample;
  \<open>N\<close> is their common number of rows. The division of line 53 raises when there is
  no sample, and \<open>torch.max\<close> of line 52 raises when the classifier has no output
  column.\<close>

definition label_pass ::
  "(vec \<Rightarrow> error + kmeans) \<Rightarrow> (string \<Rightarrow> vec \<Rightarrow> vec \<Rightarrow> real) \<Rightarrow> cfg
     \<Rightarrow> matrix \<Rightarrow> matrix \<Rightarrow> vec \<Rightarrow> error + outcome" where
  "label_pass KMeans_fit metric c all_fea0 all_output0 all_label =
     (let all_output = Softmax all_output0
      in if all_label = [] then Inl ZeroDivisionError
         else if hd all_output = [] then Inl IndexError
         else case KMeans_fit (ent_of c all_output) of
                Inl e \<Rightarrow> Inl e
              | Inr km \<Rightarrow> known_pass metric c km (fea_of c all_fea0) all_output all_label)"

subsection \<open>Lines 30 to 106: \<open>obtain_label\<close>\<close>

text \<open>With an empty loader the loop body never runs and line 51 reads a variable
  that was never bound.\<close>

definition obtain_label ::
  "(vec \<Rightarrow> error + kmeans) \<Rightarrow> (string \<Rightarrow> vec \<Rightarrow> vec \<Rightarrow> real)
     \<Rightarrow> ('i \<times> real) list list \<Rightarrow> ('i \<Rightarrow> 'f) \<Rightarrow> ('f \<Rightarrow> vec) \<Rightarrow> (vec \<Rightarrow> vec) \<Rightarrow> cfg
     \<Rightarrow> error + outcome" where
  "obtain_label KMeans_fit metric loader netF netB netC c =
     (if loader = [] then Inl UnboundLocalError
      else case gather netF netB netC loader ([], [], []) of
             (all_fea, all_output, all_label) \<Rightarrow>
               label_pass KMeans_fit metric c all_fea all_output all_label)"

subsection \<open>The Euclidean metric\<close>

text \<open>What \<open>cdist\<close> computes under the metric name \<open>euclidean\<close>. The results below
  hold for every metric; this one is used where a result is evaluated on an example.\<close>

definition euclidean :: "vec \<Rightarrow> vec \<Rightarrow> real" where
  "euclidean u v = sqrt (sum_list (map2 (\<lambda>a b. (a - b) * (a - b)) u v))"

subsection \<open>Example passes\<close>

text \<open>
  The data on which the results below are evaluated. The samples have one feature and
  the feature networks are the identity. The classifier has two classes: it returns the
  scores (0, -log 9) for a feature below 3, (-log 9, 0) for a feature above 7 and (0, 0)
  in between, of which the softmax is (0.9, 0.1), (0.1, 0.9) and (0.5, 0.5).
\<close>

definition ex_netC :: "vec \<Rightarrow> vec" where
  "ex_netC v = (if hd v < 3 then [0, - ln 9] else if 7 < hd v then [- ln 9, 0] else [0, 0])"

text \<open>Five samples in two batches, each with its ground-truth label.\<close>

definition ex_loader :: "(vec \<times> real) list list" where
  "ex_loader = [[([0], 0), ([1], 0), ([9], 1)], [([10], 1), ([5], 2)]]"

text \<open>What 2-means returns on the entropy scores of the five samples: the fifth sample
  alone in cluster 1, and the means of the clusters as centers.\<close>

definition ex_fit :: "vec \<Rightarrow> error + kmeans" where
  "ex_fit ent =
     Inr \<lparr>km_labels = [0, 0, 0, 0, 1],
          km_cluster_centers = [(ent ! 0 + ent ! 1 + ent ! 2 + ent ! 3) / 4, ent ! 4],
          km_predict = (\<lambda>_. [0, 0, 0, 0, 1])\<rparr>"

text \<open>Two samples with the same entropy score in one batch, and what 2-means returns on
  equal scores: every sample in cluster 0.\<close>

definition ex_loader_equal :: "(vec \<times> real) list list" where
  "ex_loader_equal = [[([0], 0), ([1], 0)]]"

definition ex_fit_equal :: "vec \<Rightarrow> error + kmeans" where
  "ex_fit_equal ent =
     Inr \<lparr>km_labels = replicate (length ent) 0,
          km_cluster_centers = [ent ! 0, ent ! 0],
          km_predict = (\<lambda>x. replicate (length x) 0)\<rparr>"

text \<open>Six samples in two batches. The classifier is sure of the first five, with the
  features -20, -5, -2, 0 and 8, and not of the sixth. What 2-means returns on their
  entropy scores: the sixth sample alone in cluster 1, and the means of the clusters as
  centers.\<close>

definition ex_loader_drift :: "(vec \<times> real) list list" where
  "ex_loader_drift = [[([- 20], 0), ([- 5], 0), ([- 2], 0)], [([0], 1), ([8], 1), ([5], 2)]]"

definition ex_fit_drift :: "vec \<Rightarrow> error + kmeans" where
  "ex_fit_drift ent =
     Inr \<lparr>km_labels = [0, 0, 0, 0, 0, 1],
          km_cluster_centers = [(ent ! 0 + ent ! 1 + ent ! 2 + ent ! 3 + ent ! 4) / 5, ent ! 5],
          km_predict = (\<lambda>_. [0, 0, 0, 0, 0, 1])\<rparr>"

text \<open>The metric table with the Euclidean metric under every name, and the
  configuration with \<open>epsilon = 1e-5\<close>, two classes and a given threshold.\<close>

definition ex_metric :: "string \<Rightarrow> vec \<Rightarrow> vec \<Rightarrow> real" where
  "ex_metric name = euclidean"

definition ex_cfg :: "real \<Rightarrow> cfg" where
  "ex_cfg thr = \<lparr>distance = ''euclidean'', epsilon = 1 / 100000, class_num = 2, threshold = thr\<rparr>"

section \<open>Properties of the array primitives\<close>

lemma argmin_less: "xs \<noteq> [] \<Longrightarrow> argmin xs < length xs"
  by (induction xs rule: argmin.induct) (auto simp: Let_def)

lemma argmin_le: "i < length xs \<Longrightarrow> xs ! argmin xs \<le> xs ! i"
proof (induction xs arbitrary: i rule: argmin.induct)
  case 1
  then show ?case by simp
next
  case (2 x)
  then show ?case by simp
next
  case (3 x y ys)
  show ?case
  proof (cases i)
    case 0
    then show ?thesis using 3 by (auto simp: Let_def)
  next
    case (Suc j)
    then have "j < length (y # ys)" using 3 by simp
    from "3.IH"[OF this] have "(y # ys) ! argmin (y # ys) \<le> (y # ys) ! j" .
    then show ?thesis using Suc by (auto simp: Let_def)
  qed
qed

lemma argmax_less: "xs \<noteq> [] \<Longrightarrow> argmax xs < length xs"
  by (induction xs rule: argmax.induct) (auto simp: Let_def)

lemma set_np_where: "set (np_where P xs) = {i. i < length xs \<and> P (xs ! i)}"
  by (auto simp: np_where_def)

lemma distinct_np_where: "distinct (np_where P xs)"
  by (simp add: np_where_def)

lemma length_scatter: "length (scatter a idx vals) = length a"
  by (induction a idx vals rule: scatter.induct) auto



section \<open>The open-set split\<close>

lemma sum_take_idx_where:
  "length ls = length (ent::real list) \<Longrightarrow>
   sum_list (take_idx ent (np_where P ls)) = (\<Sum>i\<in>{i. i < length ls \<and> P (ls ! i)}. ent ! i)"
  unfolding take_idx_def
  by (simp add: sum_list_distinct_conv_sum_set distinct_np_where set_np_where)

lemma length_np_where: "length (np_where P ls) = card {i. i < length ls \<and> P (ls ! i)}"
  using distinct_card[OF distinct_np_where, of P ls] by (simp add: set_np_where)

lemma length_take_idx [simp]: "length (take_idx xs idx) = length idx"
  by (simp add: take_idx_def)

lemma split_sums:
  assumes len: "length ls = length (ent::real list)"
    and bin: "\<forall>l\<in>set ls. l = 0 \<or> l = (1::nat)"
  shows "sum_list ent = sum_list (take_idx ent (np_where (\<lambda>l. l = 0) ls))
                       + sum_list (take_idx ent (np_where (\<lambda>l. l = 1) ls))"
    and "length ent = length (np_where (\<lambda>l. l = 0) ls) + length (np_where (\<lambda>l. l = 1) ls)"
proof -
  let ?A = "{i. i < length ls \<and> ls ! i = 0}" and ?B = "{i. i < length ls \<and> ls ! i = 1}"
  have un: "?A \<union> ?B = {..<length ent}" using len bin by (auto simp: all_set_conv_all_nth)
  have dj: "?A \<inter> ?B = {}" by auto
  have fin: "finite ?A" "finite ?B" by auto
  have "sum_list ent = (\<Sum>i<length ent. ent ! i)"
    by (simp add: sum_list_sum_nth atLeast0LessThan)
  also have "\<dots> = (\<Sum>i\<in>?A \<union> ?B. ent ! i)" using un by simp
  also have "\<dots> = (\<Sum>i\<in>?A. ent ! i) + (\<Sum>i\<in>?B. ent ! i)"
    using sum.union_disjoint[OF fin dj] by simp
  finally show "sum_list ent = sum_list (take_idx ent (np_where (\<lambda>l. l = 0) ls))
                       + sum_list (take_idx ent (np_where (\<lambda>l. l = 1) ls))"
    by (simp add: sum_take_idx_where[OF len])
  have "length ent = card (?A \<union> ?B)" using un by simp
  also have "\<dots> = card ?A + card ?B" using card_Un_disjoint[OF fin dj] .
  finally show "length ent = length (np_where (\<lambda>l. l = 0) ls) + length (np_where (\<lambda>l. l = 1) ls)"
    by (simp add: length_np_where)
qed

text \<open>The mean of one part exceeds the mean of the whole exactly when it exceeds the
  mean of the other part.\<close>

lemma mean_vs_total:
  fixes s0 s1 :: real and n0 n1 :: nat
  assumes "0 < n0" "0 < n1"
  shows "(s0 + s1) / real (n0 + n1) < s1 / real n1 \<longleftrightarrow> s0 / real n0 < s1 / real n1"
proof -
  have "(s0 + s1) / real (n0 + n1) < s1 / real n1 \<longleftrightarrow> (s0 + s1) * real n1 < s1 * real (n0 + n1)"
    using assms by (simp add: divide_simps mult.commute)
  also have "\<dots> \<longleftrightarrow> s0 * real n1 < s1 * real n0" by (simp add: algebra_simps)
  also have "\<dots> \<longleftrightarrow> s0 / real n0 < s1 / real n1"
    using assms by (simp add: divide_simps mult.commute)
  finally show ?thesis .
qed

lemma iidx_of_both:
  assumes len: "length ls = length ent"
    and bin: "\<forall>l\<in>set ls. l = 0 \<or> l = (1::nat)"
    and m0: "mean (take_idx ent (np_where (\<lambda>l. l = 0) ls)) = Some m0"
    and m1: "mean (take_idx ent (np_where (\<lambda>l. l = 1) ls)) = Some m1"
  shows "iidx_of ent ls = (if m0 < m1 then 1 else 0)"
proof -
  let ?c0 = "np_where (\<lambda>l. l = 0) ls" and ?c1 = "np_where (\<lambda>l. l = 1) ls"
  have ne0: "?c0 \<noteq> []" and ne1: "?c1 \<noteq> []"
    using m0 m1 by (auto simp: mean_def take_idx_def split: if_splits)
  have e0: "m0 = sum_list (take_idx ent ?c0) / real (length ?c0)"
    and e1: "m1 = sum_list (take_idx ent ?c1) / real (length ?c1)"
    using m0 m1 by (auto simp: mean_def split: if_splits)
  have ne: "ent \<noteq> []" using split_sums(2)[OF len bin] ne0 by auto
  have tot: "mean ent = Some ((sum_list (take_idx ent ?c0) + sum_list (take_idx ent ?c1))
                / real (length ?c0 + length ?c1))"
    using ne split_sums[OF len bin] by (simp add: mean_def)
  have "gt_nan (mean (take_idx ent ?c1)) (mean ent) \<longleftrightarrow> m0 < m1"
    unfolding tot m1 e0 e1 gt_nan_def
    using mean_vs_total[of "length ?c0" "length ?c1"] ne0 ne1 by simp
  then show ?thesis by (simp add: iidx_of_def Let_def)
qed

lemma iidx_of_empty1:
  assumes "1 \<notin> set ls"
  shows "iidx_of ent ls = 0"
proof -
  have "\<forall>i<length ls. ls ! i \<noteq> 1" using assms by (metis nth_mem)
  then have "np_where (\<lambda>l. l = 1) ls = []"
    by (simp add: np_where_def filter_empty_conv)
  then show ?thesis by (simp add: iidx_of_def take_idx_def mean_def gt_nan_def)
qed



text \<open>
  Claim C10. The splitter takes cluster 1 as the unknown one exactly when the mean
  entropy of cluster 1 is above the mean entropy of the whole dataset (first conjunct).
  When both clusters have a member, that is the same as comparing the two cluster
  means: cluster 1 is unknown when its mean is the larger one, cluster 0 otherwise
  (second conjunct). When cluster 1 has no member, its mean is not a number, the
  comparison is false, cluster 0 is taken as unknown and no sample is known
  (third conjunct).
\<close>

theorem iidx_of_larger_mean:
  assumes "length labels = length ent" and "\<forall>l\<in>set labels. l = 0 \<or> l = 1"
  shows "iidx_of ent labels =
           (if gt_nan (mean (take_idx ent (np_where (\<lambda>l. l = 1) labels))) (mean ent) then 1 else 0)
       \<and> (mean (take_idx ent (np_where (\<lambda>l. l = 0) labels)) = Some m0
            \<and> mean (take_idx ent (np_where (\<lambda>l. l = 1) labels)) = Some m1
          \<longrightarrow> iidx_of ent labels = (if m0 < m1 then 1 else 0))
       \<and> (1 \<notin> set labels
          \<longrightarrow> iidx_of ent labels = 0
              \<and> (km_labels km = labels \<longrightarrow> known_idx_of km (iidx_of ent labels) = []))"
proof (intro conjI impI)
  show "iidx_of ent labels =
           (if gt_nan (mean (take_idx ent (np_where (\<lambda>l. l = 1) labels))) (mean ent) then 1 else 0)"
    by (simp add: iidx_of_def Let_def)
next
  assume "mean (take_idx ent (np_where (\<lambda>l. l = 0) labels)) = Some m0
        \<and> mean (take_idx ent (np_where (\<lambda>l. l = 1) labels)) = Some m1"
  then show "iidx_of ent labels = (if m0 < m1 then 1 else 0)"
    using iidx_of_both[OF assms] by blast
next
  assume "1 \<notin> set labels"
  then show "iidx_of ent labels = 0" by (rule iidx_of_empty1)
next
  assume no1: "1 \<notin> set labels" and km: "km_labels km = labels"
  have z: "iidx_of ent labels = 0" using no1 by (rule iidx_of_empty1)
  have "\<forall>i<length labels. labels ! i = 0"
    using assms(2) no1 by (metis nth_mem)
  then show "known_idx_of km (iidx_of ent labels) = []"
    unfolding z known_idx_of_def np_where_def km by (simp add: filter_empty_conv)
qed

text \<open>The theorem at the six scores of two separated groups, with either numbering of
  the clusters, and at three equal scores that all fall in cluster 0.\<close>

theorem iidx_of_larger_mean_witness:
  "iidx_of [1/20, 2/25, 1/10, 4/5, 17/20, 9/10] [0, 0, 0, 1, 1, 1] = 1
   \<and> iidx_of [1/20, 2/25, 1/10, 4/5, 17/20, 9/10] [1, 1, 1, 0, 0, 0] = 0
   \<and> iidx_of [3/10, 3/10, 3/10] [0, 0, 0] = 0
   \<and> known_idx_of \<lparr>km_labels = [0, 0, 0], km_cluster_centers = [3/10, 3/10],
                    km_predict = (\<lambda>_. [0, 0, 0])\<rparr> (iidx_of [3/10, 3/10, 3/10] [0, 0, 0]) = []"
proof -
  let ?ent = "[1/20, 2/25, 1/10, 4/5, 17/20, 9/10] :: real list"
  let ?e3 = "[3/10, 3/10, 3/10] :: real list"
  let ?la = "[0, 0, 0, 1, 1, 1] :: nat list"
  let ?lb = "[1, 1, 1, 0, 0, 0] :: nat list"
  let ?km = "\<lparr>km_labels = [0, 0, 0], km_cluster_centers = [3/10, 3/10],
              km_predict = (\<lambda>_. [0, 0, 0])\<rparr>"
  have ma: "mean (take_idx ?ent (np_where (\<lambda>l. l = 0) ?la)) = Some (23/300)
          \<and> mean (take_idx ?ent (np_where (\<lambda>l. l = 1) ?la)) = Some (17/20)"
    by (simp add: np_where_def take_idx_def mean_def)
  have mb: "mean (take_idx ?ent (np_where (\<lambda>l. l = 0) ?lb)) = Some (17/20)
          \<and> mean (take_idx ?ent (np_where (\<lambda>l. l = 1) ?lb)) = Some (23/300)"
    by (simp add: np_where_def take_idx_def mean_def)
  have "length ?la = length ?ent" "\<forall>l\<in>set ?la. l = 0 \<or> l = 1" by simp_all
  from iidx_of_larger_mean[OF this, of "23/300" "17/20"] ma
  have A: "iidx_of ?ent ?la = (if (23/300::real) < 17/20 then 1 else 0)" by blast
  have "length ?lb = length ?ent" "\<forall>l\<in>set ?lb. l = 0 \<or> l = 1" by simp_all
  from iidx_of_larger_mean[OF this, of "17/20" "23/300"] mb
  have B: "iidx_of ?ent ?lb = (if (17/20::real) < 23/300 then 1 else 0)" by blast
  have "length [0, 0, 0 :: nat] = length ?e3" "\<forall>l\<in>set [0, 0, 0 :: nat]. l = 0 \<or> l = 1" by simp_all
  moreover have "1 \<notin> set [0, 0, 0 :: nat]" "km_labels ?km = [0, 0, 0]" by simp_all
  ultimately have C: "iidx_of ?e3 [0, 0, 0] = 0 \<and> known_idx_of ?km (iidx_of ?e3 [0, 0, 0]) = []"
    using iidx_of_larger_mean[of "[0, 0, 0]" ?e3 0 0 ?km] by blast
  from C have "known_idx_of ?km 0 = []" by (elim conjE) simp
  with A B C show ?thesis by simp
qed





section \<open>Assignment to the nearest prototype and the rounds of the loop\<close>

lemma assign_empty: "assign d fea initc [] = Inl ValueError"
  by (simp add: assign_def)

lemma assign_Inr:
  "labelset \<noteq> [] \<Longrightarrow>
   assign d fea initc labelset
     = Inr (map (\<lambda>x. labelset ! argmin (map (d x) (take_idx initc labelset))) fea)"
  by (simp add: assign_def cdist_def)

lemma assign_props:
  assumes "assign d fea initc labelset = Inr pl"
  shows "length pl = length fea" and "set pl \<subseteq> set labelset"
    and "\<forall>i<length fea. \<forall>k\<in>set labelset. d (fea ! i) (initc ! (pl ! i)) \<le> d (fea ! i) (initc ! k)"
proof -
  have ne: "labelset \<noteq> []" using assms by (auto simp: assign_def split: if_splits)
  have pl: "pl = map (\<lambda>x. labelset ! argmin (map (d x) (take_idx initc labelset))) fea"
    using assms assign_Inr[OF ne, of d fea initc] by simp
  show "length pl = length fea" by (simp add: pl)
  have lt: "argmin (map (d x) (take_idx initc labelset)) < length labelset" for x
    using argmin_less[of "map (d x) (take_idx initc labelset)"] ne by (simp add: take_idx_def)
  then show "set pl \<subseteq> set labelset" by (auto simp: pl)
  show "\<forall>i<length fea. \<forall>k\<in>set labelset. d (fea ! i) (initc ! (pl ! i)) \<le> d (fea ! i) (initc ! k)"
  proof (intro allI impI ballI)
    fix i k assume i: "i < length fea" and k: "k \<in> set labelset"
    let ?row = "map (d (fea ! i)) (take_idx initc labelset)"
    obtain j where j: "j < length labelset" "labelset ! j = k"
      using k by (auto simp: in_set_conv_nth)
    have "?row ! argmin ?row \<le> ?row ! j"
      using argmin_le[of j ?row] j(1) by (simp add: take_idx_def)
    then show "d (fea ! i) (initc ! (pl ! i)) \<le> d (fea ! i) (initc ! k)"
      using i j lt[of "fea ! i"] by (simp add: pl take_idx_def)
  qed
qed

lemma assign_cong:
  assumes "\<forall>k\<in>set labelset. initc ! k = initc' ! k"
  shows "assign d fea initc labelset = assign d fea initc' labelset"
proof -
  have "take_idx initc labelset = take_idx initc' labelset"
    using assms by (simp add: take_idx_def)
  then show ?thesis by (simp add: assign_def)
qed

lemma rounds_empty:
  "rounds (Suc n) d K D fea [] pl = Inl ValueError"
  by (simp add: round_step_def assign_empty)



lemma rounds_props:
  assumes "rounds n d K D fea labelset pl = Inr pl'"
    and "length pl = length fea" and "set pl \<subseteq> set labelset"
  shows "length pl' = length fea \<and> set pl' \<subseteq> set labelset"
  using assms
proof (induction n arbitrary: pl)
  case 0
  then show ?case by simp
next
  case (Suc n)
  from Suc.prems(1) obtain q where q: "round_step d K D fea labelset pl = Inr q"
    and r: "rounds n d K D fea labelset q = Inr pl'"
    by (auto split: sum.splits)
  from q have "assign d fea (initc_of K D (eye_rows K pl) fea) labelset = Inr q"
    by (simp add: round_step_def)
  from assign_props(1,2)[OF this] Suc.IH[OF r] show ?case by simp
qed

lemma refine_props:
  assumes "refine n d thr K D fea aff predict = Inr pl"
  shows "length pl = length fea"
    and "set pl \<subseteq> set (labelset_of thr (cls_count_of K predict))"
proof -
  let ?ls = "labelset_of thr (cls_count_of K predict)"
  from assms obtain p0 where p0: "round0 d thr K D fea aff predict = Inr p0"
    and r: "rounds n d K D fea ?ls p0 = Inr pl"
    by (auto simp: refine_def split: sum.splits)
  from p0 have "assign d fea (initc_of K D aff fea) ?ls = Inr p0"
    by (simp add: round0_def)
  from assign_props(1,2)[OF this] rounds_props[OF r]
  show "length pl = length fea" "set pl \<subseteq> set ?ls" by simp_all
qed

lemma refine_empty:
  assumes "labelset_of thr (cls_count_of K predict) = []"
  shows "refine n d thr K D fea aff predict = Inl ValueError"
  using assms by (simp add: refine_def round0_def assign_empty)


lemma rounds_Suc_end:
  "rounds (Suc n) d K D fea labelset pl =
     (case rounds n d K D fea labelset pl of
        Inl e \<Rightarrow> Inl e
      | Inr p \<Rightarrow> round_step d K D fea labelset p)"
proof (induction n arbitrary: pl)
  case 0
  then show ?case by (simp split: sum.splits)
next
  case (Suc n)
  show ?case
  proof (cases "round_step d K D fea labelset pl")
    case (Inl e)
    then show ?thesis by simp
  next
    case (Inr q)
    have "rounds (Suc (Suc n)) d K D fea labelset pl = rounds (Suc n) d K D fea labelset q"
      using Inr by simp
    also have "\<dots> = (case rounds n d K D fea labelset q of
        Inl e \<Rightarrow> Inl e | Inr p \<Rightarrow> round_step d K D fea labelset p)"
      by (rule Suc)
    also have "rounds n d K D fea labelset q = rounds (Suc n) d K D fea labelset pl"
      using Inr by simp
    finally show ?thesis .
  qed
qed

lemma refine_Suc:
  "refine (Suc n) d thr K D fea aff predict =
     (case refine n d thr K D fea aff predict of
        Inl e \<Rightarrow> Inl e
      | Inr p \<Rightarrow> round_step d K D fea (labelset_of thr (cls_count_of K predict)) p)"
  unfolding refine_def
  by (cases "round0 d thr K D fea aff predict") (simp_all only: sum.case rounds_Suc_end)

lemma eye_col_sum:
  "k < K \<Longrightarrow> sum_list (map (\<lambda>r. r ! k) (eye_rows K lbls)) = real (count_list lbls k)"
  by (induction lbls) (auto simp: eye_rows_def)

lemma cls_count_nth:
  "k < K \<Longrightarrow> cls_count_of K predict ! k = real (count_list predict k)"
  by (simp add: cls_count_of_def sum_axis0_def eye_col_sum)

lemma length_cls_count [simp]: "length (cls_count_of K predict) = K"
  by (simp add: cls_count_of_def sum_axis0_def)

lemma set_labelset:
  "set (labelset_of thr (cls_count_of K predict)) = {k. k < K \<and> thr < real (count_list predict k)}"
  by (auto simp: labelset_of_def set_np_where cls_count_nth)

text \<open>The definitions that evaluate the refinement on an example.\<close>

lemmas refine_eval = refine_def round0_def round_step_def assign_def cdist_def initc_of_def
  transpose_dot_def sum_axis0_def eye_rows_def cls_count_of_def labelset_of_def np_where_def
  take_idx_def euclidean_def Let_def eval_nat_numeral

text \<open>
  Claim C3, as stated, fails: the count per class and the label set are not computed
  again from the labels of the round before. Four known samples with the features 0, 0,
  1 and 10, threshold 1: the classifier predicts the classes 0, 0, 1, 1, so both classes
  have a count above the threshold. The pass with the soft weights gives the labels
  0, 0, 0, 1. Class 1 now has one sample, which is not above the threshold, and yet the
  round of the loop gives the fourth sample the class 1 again.
\<close>

theorem labelset_from_previous_round_counterexample:
  "refine 0 euclidean 1 2 1 [[0], [0], [1], [10]]
      [[9/10, 1/10], [9/10, 1/10], [1/10, 9/10], [1/10, 9/10]]
      (predict_of [[9/10, 1/10], [9/10, 1/10], [1/10, 9/10], [1/10, 9/10]]) = Inr [0, 0, 0, 1]
   \<and> refine 1 euclidean 1 2 1 [[0], [0], [1], [10]]
      [[9/10, 1/10], [9/10, 1/10], [1/10, 9/10], [1/10, 9/10]]
      (predict_of [[9/10, 1/10], [9/10, 1/10], [1/10, 9/10], [1/10, 9/10]]) = Inr [0, 0, 0, 1]
   \<and> \<not> set [0, 0, 0, 1] \<subseteq> set (labelset_of 1 (cls_count_of 2 [0, 0, 0, 1]))"
  by (simp add: refine_eval predict_of_def)

text \<open>
  Claim C3, amended. The count per class is taken once, from the classifier's own
  prediction for the known samples, and the label set is exactly the classes whose count
  is strictly above the threshold. Whatever the number of rounds, the labels returned
  are classes of that label set, one per known sample. Every round after the first uses
  the same label set, not one computed from the labels of the round before. The
  prototypes of the classes outside the label set play no part in the assignment.
\<close>

theorem labelset_fixed:
  "set (labelset_of thr (cls_count_of K predict))
     = {k. k < K \<and> thr < real (count_list predict k)}
   \<and> (refine n d thr K D fea aff predict = Inr pl
        \<longrightarrow> length pl = length fea
          \<and> set pl \<subseteq> {k. k < K \<and> thr < real (count_list predict k)})
   \<and> refine (Suc n) d thr K D fea aff predict
       = (case refine n d thr K D fea aff predict of
            Inl e \<Rightarrow> Inl e
          | Inr p \<Rightarrow> round_step d K D fea (labelset_of thr (cls_count_of K predict)) p)
   \<and> ((\<forall>k\<in>set labelset. initc ! k = initc' ! k)
        \<longrightarrow> assign d fea initc labelset = assign d fea initc' labelset)"
proof (intro conjI impI)
  show "set (labelset_of thr (cls_count_of K predict))
     = {k. k < K \<and> thr < real (count_list predict k)}"
    by (rule set_labelset)
next
  assume r: "refine n d thr K D fea aff predict = Inr pl"
  show "length pl = length fea" by (rule refine_props(1)[OF r])
  show "set pl \<subseteq> {k. k < K \<and> thr < real (count_list predict k)}"
    using refine_props(2)[OF r] by (simp only: set_labelset)
next
  show "refine (Suc n) d thr K D fea aff predict
       = (case refine n d thr K D fea aff predict of
            Inl e \<Rightarrow> Inl e
          | Inr p \<Rightarrow> round_step d K D fea (labelset_of thr (cls_count_of K predict)) p)"
    by (rule refine_Suc)
next
  assume "\<forall>k\<in>set labelset. initc ! k = initc' ! k"
  then show "assign d fea initc labelset = assign d fea initc' labelset"
    by (rule assign_cong)
qed

text \<open>The theorem at the four samples above, and at two prototype matrices that
  differ outside the label set only.\<close>

theorem labelset_fixed_witness:
  "set [0, 0, 0, 1 :: nat] \<subseteq> {k. k < 2 \<and> (1::real) < real (count_list [0, 0, 1, 1] k)}
   \<and> assign euclidean [[0], [0], [1], [10]] [[1/3], [10], [7]] [0, 1]
       = assign euclidean [[0], [0], [1], [10]] [[1/3], [10], [-4]] [0, 1]"
proof -
  let ?F = "[[0], [0], [1], [10]] :: matrix"
  let ?A = "[[9/10, 1/10], [9/10, 1/10], [1/10, 9/10], [1/10, 9/10]] :: matrix"
  have r: "refine 1 euclidean 1 2 1 ?F ?A [0, 0, 1, 1] = Inr [0, 0, 0, 1]"
    by (simp add: refine_eval)
  have c: "\<forall>k\<in>set [0, 1]. [[1/3], [10], [7::real]] ! k = [[1/3], [10], [-4]] ! k"
    by simp
  note T = labelset_fixed[of 1 2 "[0, 0, 1, 1]" 1 euclidean 1 ?F ?A "[0, 0, 0, 1]" "[0, 1]"
      "[[1/3], [10], [7]]" "[[1/3], [10], [-4]]"]
  from T have "refine 1 euclidean 1 2 1 ?F ?A [0, 0, 1, 1] = Inr [0, 0, 0, 1]
        \<longrightarrow> length [0, 0, 0, 1 :: nat] = length ?F
          \<and> set [0, 0, 0, 1 :: nat] \<subseteq> {k. k < 2 \<and> (1::real) < real (count_list [0, 0, 1, 1] k)}"
    by (rule conjunct1[OF conjunct2])
  with r have A: "set [0, 0, 0, 1 :: nat] \<subseteq> {k. k < 2 \<and> (1::real) < real (count_list [0, 0, 1, 1] k)}"
    by (elim impE conjE)
  from T have "(\<forall>k\<in>set [0, 1]. [[1/3], [10], [7::real]] ! k = [[1/3], [10], [-4]] ! k)
        \<longrightarrow> assign euclidean ?F [[1/3], [10], [7]] [0, 1]
            = assign euclidean ?F [[1/3], [10], [-4]] [0, 1]"
    by (rule conjunct2[OF conjunct2[OF conjunct2]])
  with c have B: "assign euclidean ?F [[1/3], [10], [7]] [0, 1]
            = assign euclidean ?F [[1/3], [10], [-4]] [0, 1]"
    by (rule rev_mp)
  from A B show ?thesis by (rule conjI)
qed

section \<open>The prototypes\<close>

lemma map2_index:
  "length xs = length ys \<Longrightarrow> map2 f xs ys = map (\<lambda>i. f (xs ! i) (ys ! i)) [0..<length xs]"
  by (rule nth_equalityI) auto

lemma map_index: "map g xs = map (\<lambda>i. g (xs ! i)) [0..<length xs]"
  by (rule nth_equalityI) auto

lemma length_transpose_dot [simp]: "length (transpose_dot K D aff fea) = K"
  by (simp add: transpose_dot_def)

lemma length_sum_axis0 [simp]: "length (sum_axis0 K m) = K"
  by (simp add: sum_axis0_def)

lemma initc_nth:
  assumes "k < K" "d < D"
  shows "initc_of K D aff fea ! k ! d
           = sum_list (map2 (\<lambda>a f. a ! k * f ! d) aff fea)
             / (1 / 100000000 + sum_list (map (\<lambda>r. r ! k) aff))"
  using assms by (simp add: initc_of_def transpose_dot_def sum_axis0_def)

lemma length_initc [simp]: "length (initc_of K D aff fea) = K"
  by (simp add: initc_of_def)

lemma eye_nth: "k < K \<Longrightarrow> i < length pl \<Longrightarrow> eye_rows K pl ! i ! k = (if k = pl ! i then 1 else 0)"
  by (simp add: eye_rows_def)

lemma length_eye_rows [simp]: "length (eye_rows K pl) = length pl"
  by (simp add: eye_rows_def)

lemma hard_numerator:
  assumes k: "k < K" and len: "length pl = length fea"
  shows "sum_list (map2 (\<lambda>a f. a ! k * f ! d) (eye_rows K pl) fea)
         = sum_list (map (\<lambda>i. fea ! i ! d) (np_where (\<lambda>l. l = k) pl))"
proof -
  have "sum_list (map2 (\<lambda>a f. a ! k * f ! d) (eye_rows K pl) fea)
        = sum_list (map (\<lambda>i. eye_rows K pl ! i ! k * fea ! i ! d) [0..<length pl])"
    using len by (simp add: map2_index)
  also have "\<dots> = sum_list (map (\<lambda>i. if pl ! i = k then fea ! i ! d else 0) [0..<length pl])"
    using k by (intro arg_cong[where f = sum_list] map_cong) (auto simp: eye_nth)
  also have "\<dots> = sum_list (map (\<lambda>i. fea ! i ! d) (np_where (\<lambda>l. l = k) pl))"
    by (simp add: np_where_def sum_list_map_filter')
  finally show ?thesis .
qed

lemma count_list_np_where: "count_list pl k = length (np_where (\<lambda>l. l = k) pl)"
proof -
  have "count_list pl k = length (filter ((=) k) pl)"
    by (simp add: count_list_eq_length_filter)
  also have "\<dots> = card {i. i < length pl \<and> pl ! i = k}"
    by (simp add: length_filter_conv_card eq_commute)
  finally show ?thesis by (simp add: length_np_where)
qed

text \<open>
  Claim C4, as stated, fails where it says that the prototype of a later round equals
  the mean of the feature vectors labelled \<open>k\<close>: the constant of the denominator is
  there in every round. Four samples at (0, 0), (0, 1), (10, 0) and (10, 1), the first
  two labelled 0 and the last two labelled 1: the class means are (0, 1/2) and
  (10, 1/2), the prototypes are not.
\<close>

theorem prototype_mean_counterexample:
  "initc_of 2 2 (eye_rows 2 [0, 0, 1, 1]) [[0, 0], [0, 1], [10, 0], [10, 1]]
     = [[0, 100000000 / 200000001], [2000000000 / 200000001, 100000000 / 200000001]]
   \<and> initc_of 2 2 (eye_rows 2 [0, 0, 1, 1]) [[0, 0], [0, 1], [10, 0], [10, 1]]
     \<noteq> [[0, 1 / 2], [10, 1 / 2]]"
  by (simp add: refine_eval)

text \<open>
  Claim C4, amended. For the known samples \<open>fea\<close> with the weights \<open>aff\<close>, coordinate
  \<open>d\<close> of the prototype of class \<open>k\<close> is the weighted sum of the features divided by
  the constant \<open>1e-8\<close> plus the sum of the weights of the class. With the one-hot
  weights of hard labels \<open>pl\<close> it is the sum of the features of the samples labelled
  \<open>k\<close> divided by \<open>1e-8\<close> plus their number (the class mean scaled by
  \<open>n / (n + 1e-8)\<close>). Round 0 assigns with the prototypes of the weights it is given
  (the softmax output of the known samples), every round of the loop with the
  prototypes of the one-hot weights of the labels of the round before.
\<close>

theorem prototype_formula:
  assumes "k < K" and "d < D" and "length aff = length fea"
  shows "initc_of K D aff fea ! k ! d
           = sum_list (map (\<lambda>i. aff ! i ! k * fea ! i ! d) [0..<length fea])
             / (1 / 100000000 + sum_list (map (\<lambda>i. aff ! i ! k) [0..<length fea]))
       \<and> (length pl = length fea \<longrightarrow>
            initc_of K D (eye_rows K pl) fea ! k ! d
              = sum_list (map (\<lambda>i. fea ! i ! d) (np_where (\<lambda>l. l = k) pl))
                / (1 / 100000000 + real (length (np_where (\<lambda>l. l = k) pl))))
       \<and> round0 dm thr K D fea aff predict
           = assign dm fea (initc_of K D aff fea) (labelset_of thr (cls_count_of K predict))
       \<and> round_step dm K D fea labelset pl
           = assign dm fea (initc_of K D (eye_rows K pl) fea) labelset"
proof (intro conjI impI)
  have "sum_list (map (\<lambda>r. r ! k) aff) = sum_list (map (\<lambda>i. aff ! i ! k) [0..<length fea])"
    using map_index[of "\<lambda>r. r ! k" aff] assms(3) by simp
  then show "initc_of K D aff fea ! k ! d
           = sum_list (map (\<lambda>i. aff ! i ! k * fea ! i ! d) [0..<length fea])
             / (1 / 100000000 + sum_list (map (\<lambda>i. aff ! i ! k) [0..<length fea]))"
    using assms by (simp add: initc_nth map2_index)
next
  assume len: "length pl = length fea"
  show "initc_of K D (eye_rows K pl) fea ! k ! d
              = sum_list (map (\<lambda>i. fea ! i ! d) (np_where (\<lambda>l. l = k) pl))
                / (1 / 100000000 + real (length (np_where (\<lambda>l. l = k) pl)))"
    using assms(1,2) hard_numerator[OF assms(1) len]
    by (simp add: initc_nth eye_col_sum count_list_np_where)
next
  show "round0 dm thr K D fea aff predict
           = assign dm fea (initc_of K D aff fea) (labelset_of thr (cls_count_of K predict))"
    by (simp add: round0_def)
  show "round_step dm K D fea labelset pl
           = assign dm fea (initc_of K D (eye_rows K pl) fea) labelset"
    by (simp add: round_step_def)
qed

text \<open>The theorem at the four samples above, for coordinate 0 of the prototype of
  class 1, with soft weights and with the hard labels 0, 0, 1, 1.\<close>

theorem prototype_formula_witness:
  "initc_of 2 2 [[9/10, 1/10], [9/10, 1/10], [1/10, 9/10], [1/10, 9/10]]
       [[0, 0], [0, 1], [10, 0], [10, 1]] ! 1 ! 0
     = 18 / (1 / 100000000 + 2)
   \<and> initc_of 2 2 (eye_rows 2 [0, 0, 1, 1]) [[0, 0], [0, 1], [10, 0], [10, 1]] ! 1 ! 0
     = 20 / (1 / 100000000 + 2)"
proof -
  let ?F = "[[0, 0], [0, 1], [10, 0], [10, 1]] :: matrix"
  let ?A = "[[9/10, 1/10], [9/10, 1/10], [1/10, 9/10], [1/10, 9/10]] :: matrix"
  let ?pl = "[0, 0, 1, 1] :: nat list"
  have h: "(1::nat) < 2" "(0::nat) < 2" "length ?A = length ?F" by simp_all
  note T = prototype_formula[OF h, where pl = ?pl]
  have A: "initc_of 2 2 ?A ?F ! 1 ! 0
           = sum_list (map (\<lambda>i. ?A ! i ! 1 * ?F ! i ! 0) [0..<length ?F])
             / (1 / 100000000 + sum_list (map (\<lambda>i. ?A ! i ! 1) [0..<length ?F]))"
    by (rule conjunct1[OF T])
  have B: "initc_of 2 2 (eye_rows 2 ?pl) ?F ! 1 ! 0
              = sum_list (map (\<lambda>i. ?F ! i ! 0) (np_where (\<lambda>l. l = 1) ?pl))
                / (1 / 100000000 + real (length (np_where (\<lambda>l. l = 1) ?pl)))"
    by (rule mp[OF conjunct1[OF conjunct2[OF T]]]) simp
  have A': "sum_list (map (\<lambda>i. ?A ! i ! 1 * ?F ! i ! 0) [0..<length ?F]) = 18"
    "sum_list (map (\<lambda>i. ?A ! i ! 1) [0..<length ?F]) = 2" by simp_all
  have B': "sum_list (map (\<lambda>i. ?F ! i ! 0) (np_where (\<lambda>l. l = 1) ?pl)) = 20"
    "real (length (np_where (\<lambda>l. l = 1) ?pl)) = 2"
    by (simp_all add: np_where_def)
  show ?thesis unfolding A B A' B' by simp
qed

section \<open>The entropy score\<close>













section \<open>The whole pass\<close>

lemma gather_concat:
  "gather netF netB netC loader (a, b, l) =
     (a @ concat (map (map (\<lambda>s. netB (netF (fst s)))) loader),
      b @ concat (map (map (\<lambda>s. netC (netB (netF (fst s))))) loader),
      l @ concat (map (map snd) loader))"
  by (induction loader arbitrary: a b l) (simp_all add: Let_def o_def)

lemma gather_lengths:
  assumes "gather netF netB netC loader ([], [], []) = (all_fea, all_output, all_label)"
  shows "length all_fea = length (concat loader)"
    and "length all_output = length (concat loader)"
    and "length all_label = length (concat loader)"
  using assms by (auto simp: gather_concat length_concat o_def)

lemma gather_labels_irrelevant:
  assumes "map (map fst) loader = map (map fst) loader'"
    and "gather netF netB netC loader ([], [], []) = (all_fea, all_output, all_label)"
    and "gather netF netB netC loader' ([], [], []) = (all_fea', all_output', all_label')"
  shows "all_fea' = all_fea" and "all_output' = all_output"
    and "length all_label' = length all_label"
proof -
  have m: "map (map (\<lambda>s. f (fst s))) loader = map (map (\<lambda>s. f (fst s))) loader'" for f :: "'a \<Rightarrow> 'e"
  proof -
    have "map (map f) (map (map fst) loader) = map (map f) (map (map fst) loader')"
      using assms(1) by simp
    then show ?thesis by (simp add: o_def)
  qed
  show "all_fea' = all_fea" "all_output' = all_output"
    using assms(2,3) m[of "\<lambda>x. netB (netF x)"] m[of "\<lambda>x. netC (netB (netF x))"]
    by (simp_all add: gather_concat)
  have "length (concat (map (map fst) loader)) = length (concat (map (map fst) loader'))"
    using assms(1) by simp
  then have "length (concat loader) = length (concat loader')"
    by (simp add: length_concat o_def)
  then show "length all_label' = length all_label"
    using gather_lengths(3)[OF assms(2)] gather_lengths(3)[OF assms(3)] by simp
qed

lemma in_range_np_where: "length ls \<le> n \<Longrightarrow> in_range (np_where P ls) n"
  by (auto simp: in_range_def list_all_iff set_np_where)

lemma known_pass_labels_irrelevant:
  assumes "length all_label' = length all_label"
  shows "map_sum id returned (known_pass metric c km all_fea all_output all_label')
       = map_sum id returned (known_pass metric c km all_fea all_output all_label)"
  using assms by (simp add: known_pass_def Let_def returned_def split: sum.splits)

lemma label_pass_labels_irrelevant:
  assumes "length all_label' = length all_label"
  shows "map_sum id returned (label_pass fit metric c all_fea all_output all_label')
       = map_sum id returned (label_pass fit metric c all_fea all_output all_label)"
proof -
  have "all_label' = [] \<longleftrightarrow> all_label = []" using assms by auto
  then show ?thesis
    using known_pass_labels_irrelevant[OF assms]
    by (simp add: label_pass_def Let_def split: sum.splits)
qed

text \<open>
  Claim C7. \<open>obtain_label\<close> is a function of its inputs, the clustering (with its fixed
  seed, \<open>random_state=0\<close>) among them, so two runs on the same inputs return the same
  pair. Two loaders that differ in the ground-truth labels only also give the same
  result: the same error, or the same pair of pseudo-labels and threshold. The labels are
  read for the two accuracies of the log and for the number of samples, nothing else.
\<close>

theorem obtain_label_ignores_labels:
  assumes "map (map fst) loader = map (map fst) loader'"
  shows "map_sum id returned (obtain_label fit metric loader' netF netB netC c)
       = map_sum id returned (obtain_label fit metric loader netF netB netC c)"
proof -
  obtain a b l where g: "gather netF netB netC loader ([], [], []) = (a, b, l)"
    by (cases "gather netF netB netC loader ([], [], [])") auto
  obtain a' b' l' where g': "gather netF netB netC loader' ([], [], []) = (a', b', l')"
    by (cases "gather netF netB netC loader' ([], [], [])") auto
  note e = gather_labels_irrelevant[OF assms g g']
  have "loader' = [] \<longleftrightarrow> loader = []" using assms by (metis map_is_Nil_conv)
  then show ?thesis
    using label_pass_labels_irrelevant[OF e(3)] e(1,2) g g'
    by (simp add: obtain_label_def)
qed

lemma known_pass_eq:
  assumes "length (km_predict km (ent_of c out)) \<le> length all_label"
    and "length (km_labels km) \<le> length all_label"
    and "known_idx = known_idx_of km (iidx_of (ent_of c out) (km_predict km (ent_of c out)))"
  shows "known_pass metric c km fea out all_label =
     (case refine 1 (metric (distance c)) (threshold c) (length (hd out)) (length (hd fea))
             (take_idx fea known_idx) (take_idx out known_idx)
             (take_idx (predict_of out) known_idx) of
        Inl e \<Rightarrow> Inl e
      | Inr pl \<Rightarrow>
          Inr \<lparr>guess_label = guess_label_of (class_num c) (length all_label) known_idx pl,
               ENT_THRESHOLD = ENT_THRESHOLD_of km,
               before_acc = before_acc_of (predict_of out) all_label,
               after_acc = after_acc_of
                 (guess_label_of (class_num c) (length all_label) known_idx pl)
                 all_label known_idx\<rparr>)"
proof -
  have "in_range (np_where (\<lambda>l. l = 1) (km_predict km (ent_of c out))) (length all_label)"
    using assms(1) by (rule in_range_np_where)
  moreover have "in_range known_idx (length all_label)"
    unfolding assms(3) known_idx_of_def using assms(2) by (rule in_range_np_where)
  ultimately show ?thesis
    unfolding known_pass_def Let_def assms(3)[symmetric] by simp
qed

lemma label_pass_eq:
  assumes "all_label \<noteq> []" and "hd (Softmax out0) \<noteq> []"
    and "fit (ent_of c (Softmax out0)) = Inr km"
  shows "label_pass fit metric c fea0 out0 all_label
         = known_pass metric c km (fea_of c fea0) (Softmax out0) all_label"
  using assms by (simp add: label_pass_def Let_def)

lemma obtain_label_eq:
  assumes "loader \<noteq> []"
    and "gather netF netB netC loader ([], [], []) = (all_fea, all_output, all_label)"
  shows "obtain_label fit metric loader netF netB netC c
         = label_pass fit metric c all_fea all_output all_label"
  using assms by (simp add: obtain_label_def)

lemma length_guess_label [simp]:
  "length (guess_label_of cn n known_idx pl) = n"
  by (simp add: guess_label_of_def length_scatter)





lemma length_softmax_row [simp]: "length (softmax_row xs) = length xs"
  by (simp add: softmax_row_def)


lemma length_Softmax [simp]: "length (Softmax m) = length m"
  by (simp add: Softmax_def)


text \<open>
  The theorem of claim C7 at the example loader and at the same loader with every
  ground-truth label replaced by 7.
\<close>

theorem obtain_label_ignores_labels_witness:
  "map_sum id returned
     (obtain_label ex_fit ex_metric (map (map (\<lambda>s. (fst s, 7))) ex_loader)
        (\<lambda>x. x) (\<lambda>x. x) ex_netC (ex_cfg 0))
   = map_sum id returned
     (obtain_label ex_fit ex_metric ex_loader (\<lambda>x. x) (\<lambda>x. x) ex_netC (ex_cfg 0))"
proof -
  have "map (map fst) ex_loader = map (map fst) (map (map (\<lambda>s. (fst s, 7::real))) ex_loader)"
    by (simp add: o_def)
  from obtain_label_ignores_labels[OF this] show ?thesis .
qed

section \<open>The example passes, evaluated\<close>

lemma Entropy_swap: "Entropy e K [a, b] = Entropy e K [b, a]"
  by (simp add: Entropy_def add.commute)

lemma ln_pow_mult:
  fixes a b :: real
  shows "0 < a \<Longrightarrow> 0 < b \<Longrightarrow> ln (a ^ n * b) = real n * ln a + ln b"
  by (simp add: ln_mult ln_realpow)

lemma ex_entropy_less:
  "Entropy (1 / 100000) 2 [9 / 10, 1 / 10] < Entropy (1 / 100000) 2 [1 / 2, 1 / 2]"
proof -
  let ?a = "90001 / 100000 :: real" and ?b = "10001 / 100000 :: real"
  let ?c = "50001 / 100000 :: real"
  have "?c ^ 10 < ?a ^ 9 * ?b" by (simp add: power_divide)
  then have "ln (?c ^ 10) < ln (?a ^ 9 * ?b)" by (subst ln_less_cancel_iff) simp_all
  moreover have "ln (?c ^ 10) = 10 * ln ?c" using ln_realpow[of ?c 10] by simp
  moreover have "ln (?a ^ 9 * ?b) = 9 * ln ?a + ln ?b" using ln_pow_mult[of ?a ?b 9] by simp
  ultimately have k: "10 * ln ?c < 9 * ln ?a + ln ?b" by simp
  have l2: "0 < ln (2::real)" by simp
  have ec: "Entropy (1 / 100000) 2 [9 / 10, 1 / 10] = - (9 / 10 * ln ?a + 1 / 10 * ln ?b) / ln 2"
    by (simp add: Entropy_def)
  have eu: "Entropy (1 / 100000) 2 [1 / 2, 1 / 2] = - ln ?c / ln 2"
    by (simp add: Entropy_def)
  have "- (9 / 10 * ln ?a + 1 / 10 * ln ?b) < - ln ?c" using k by simp
  then show ?thesis unfolding ec eu using l2 by (simp only: divide_strict_right_mono)
qed

lemma ex_softmax_rows:
  "softmax_row [0, - ln 9] = [9 / 10, 1 / 10]"
  "softmax_row [- ln 9, 0] = [1 / 10, 9 / 10]"
  "softmax_row [0, 0] = [1 / 2, 1 / 2]"
  by (simp_all add: softmax_row_def exp_minus)

lemma ex_gather:
  "gather (\<lambda>x. x) (\<lambda>x. x) ex_netC ex_loader ([], [], [])
     = ([[0], [1], [9], [10], [5]],
        [[0, - ln 9], [0, - ln 9], [- ln 9, 0], [- ln 9, 0], [0, 0]],
        [0, 0, 1, 1, 2])"
  by (simp add: ex_loader_def ex_netC_def Let_def)

lemma ex_Softmax:
  "Softmax [[0, - ln 9], [0, - ln 9], [- ln 9, 0], [- ln 9, 0], [0, 0]]
     = [[9 / 10, 1 / 10], [9 / 10, 1 / 10], [1 / 10, 9 / 10], [1 / 10, 9 / 10], [1 / 2, 1 / 2]]"
  by (simp add: Softmax_def ex_softmax_rows)

lemma ex_ent:
  "ent_of (ex_cfg thr)
     [[9 / 10, 1 / 10], [9 / 10, 1 / 10], [1 / 10, 9 / 10], [1 / 10, 9 / 10], [1 / 2, 1 / 2]]
   = [Entropy (1 / 100000) 2 [9 / 10, 1 / 10], Entropy (1 / 100000) 2 [9 / 10, 1 / 10],
      Entropy (1 / 100000) 2 [9 / 10, 1 / 10], Entropy (1 / 100000) 2 [9 / 10, 1 / 10],
      Entropy (1 / 100000) 2 [1 / 2, 1 / 2]]"
  by (simp add: ent_of_def ex_cfg_def Entropy_swap[of _ _ "1 / 10" "9 / 10"])

lemma ex_predict:
  "predict_of
     [[9 / 10, 1 / 10], [9 / 10, 1 / 10], [1 / 10, 9 / 10], [1 / 10, 9 / 10], [1 / 2, 1 / 2]]
   = [0, 0, 1, 1, 0]"
  by (simp add: predict_of_def)

lemma ex_iidx:
  "iidx_of [ec, ec, ec, ec, eu] [0, 0, 0, 0, 1] = (if ec < eu then 1 else 0)"
proof -
  have "iidx_of [ec, ec, ec, ec, eu] [0, 0, 0, 0, 1] = (if ec < eu then 1 else 0)"
    by (rule iidx_of_both) (simp_all add: np_where_def take_idx_def mean_def)
  then show ?thesis .
qed

lemma ex_km:
  "ex_fit (ent_of (ex_cfg thr) (Softmax
        [[0, - ln 9], [0, - ln 9], [- ln 9, 0], [- ln 9, 0], [0, 0]]))
   = Inr \<lparr>km_labels = [0, 0, 0, 0, 1],
          km_cluster_centers = [Entropy (1 / 100000) 2 [9 / 10, 1 / 10],
                                Entropy (1 / 100000) 2 [1 / 2, 1 / 2]],
          km_predict = (\<lambda>_. [0, 0, 0, 0, 1])\<rparr>"
  by (simp add: ex_fit_def ex_Softmax ex_ent)

lemma ex_known_idx:
  "known_idx_of \<lparr>km_labels = [0, 0, 0, 0, 1], km_cluster_centers = cs,
                  km_predict = (\<lambda>_. [0, 0, 0, 0, 1])\<rparr>
     (iidx_of (ent_of (ex_cfg thr) (Softmax
        [[0, - ln 9], [0, - ln 9], [- ln 9, 0], [- ln 9, 0], [0, 0]])) [0, 0, 0, 0, 1])
   = [0, 1, 2, 3]"
proof -
  have i: "iidx_of (ent_of (ex_cfg thr) (Softmax
        [[0, - ln 9], [0, - ln 9], [- ln 9, 0], [- ln 9, 0], [0, 0]])) [0, 0, 0, 0, 1] = 1"
    unfolding ex_Softmax ex_ent ex_iidx using ex_entropy_less by simp
  show ?thesis unfolding i by (simp add: known_idx_of_def np_where_def)
qed


lemma ex_refine:
  "refine 1 euclidean 0 2 1 [[0], [1], [9], [10]]
     [[9 / 10, 1 / 10], [9 / 10, 1 / 10], [1 / 10, 9 / 10], [1 / 10, 9 / 10]] [0, 0, 1, 1]
   = Inr [0, 0, 1, 1]"
  by (simp add: refine_eval)


lemma ex_guess: "guess_label_of 2 5 [0, 1, 2, 3] [0, 0, 1, 1] = [0, 0, 1, 1, 2]"
  by (simp add: guess_label_of_def eval_nat_numeral)

lemma labelset_no_known:
  assumes "0 \<le> thr"
  shows "labelset_of thr (cls_count_of K (take_idx predict [])) = []"
proof -
  have "set (labelset_of thr (cls_count_of K (take_idx predict []))) = {}"
    using assms by (simp add: set_labelset take_idx_def)
  then show ?thesis by simp
qed

lemma obtain_label_empty_labelset:
  assumes ne: "loader \<noteq> []"
    and g: "gather netF netB netC loader ([], [], []) = (all_fea, all_output, all_label)"
    and N: "all_label \<noteq> []"
    and hd: "hd (Softmax all_output) \<noteq> []"
    and fit: "KMeans_fit (ent_of c (Softmax all_output)) = Inr km"
    and l1: "length (km_labels km) = length all_label"
    and l2: "length (km_predict km (ent_of c (Softmax all_output))) = length all_label"
    and known: "known_idx = known_idx_of km (iidx_of (ent_of c (Softmax all_output))
                   (km_predict km (ent_of c (Softmax all_output))))"
    and ls: "labelset_of (threshold c) (cls_count_of (length (hd (Softmax all_output)))
               (take_idx (predict_of (Softmax all_output)) known_idx)) = []"
  shows "obtain_label KMeans_fit metric loader netF netB netC c = Inl ValueError"
proof -
  have "obtain_label KMeans_fit metric loader netF netB netC c
          = known_pass metric c km (fea_of c all_fea) (Softmax all_output) all_label"
    using obtain_label_eq[OF ne g]
      label_pass_eq[where fit = KMeans_fit and c = c and ?out0.0 = all_output, OF N hd fit]
    by simp
  also have "\<dots> = Inl ValueError"
    using known_pass_eq[of km c "Softmax all_output" all_label known_idx metric
        "fea_of c all_fea"] l1 l2 known refine_empty[OF ls]
    by simp
  finally show ?thesis .
qed

lemma ex_equal_gather:
  "gather (\<lambda>x. x) (\<lambda>x. x) ex_netC ex_loader_equal ([], [], [])
     = ([[0], [1]], [[0, - ln 9], [0, - ln 9]], [0, 0])"
  by (simp add: ex_loader_equal_def ex_netC_def Let_def)

lemma ex_equal_Softmax:
  "Softmax [[0, - ln 9], [0, - ln 9]] = [[9 / 10, 1 / 10], [9 / 10, 1 / 10]]"
  by (simp add: Softmax_def ex_softmax_rows)

lemma ex_equal_km:
  "ex_fit_equal (ent_of (ex_cfg thr) (Softmax [[0, - ln 9], [0, - ln 9]]))
     = Inr \<lparr>km_labels = [0, 0],
            km_cluster_centers = [Entropy (1 / 100000) 2 [9 / 10, 1 / 10],
                                  Entropy (1 / 100000) 2 [9 / 10, 1 / 10]],
            km_predict = (\<lambda>x. replicate (length x) 0)\<rparr>"
  by (simp add: ex_fit_equal_def ex_equal_Softmax ent_of_def ex_cfg_def eval_nat_numeral)

lemma ex_equal_known:
  "[] = known_idx_of \<lparr>km_labels = [0, 0], km_cluster_centers = cs,
                       km_predict = (\<lambda>x. replicate (length x) 0)\<rparr>
          (iidx_of (ent_of (ex_cfg thr) (Softmax [[0, - ln 9], [0, - ln 9]]))
             (km_predict \<lparr>km_labels = [0, 0], km_cluster_centers = cs,
                          km_predict = (\<lambda>x. replicate (length x) 0)\<rparr>
                (ent_of (ex_cfg thr) (Softmax [[0, - ln 9], [0, - ln 9]]))))"
proof -
  have "iidx_of ent (replicate n 0) = 0" for ent n
    by (rule iidx_of_empty1) simp
  then show ?thesis by (simp add: known_idx_of_def np_where_def)
qed

lemma sum_exp_pos: "xs \<noteq> [] \<Longrightarrow> 0 < sum_list (map exp (xs :: real list))"
proof (induction xs)
  case Nil
  then show ?case by simp
next
  case (Cons x xs)
  have "0 \<le> sum_list (map exp xs)" by (rule sum_list_nonneg) auto
  moreover have "0 < exp x" by simp
  ultimately show ?case by (simp add: add_pos_nonneg)
qed

lemma sum_list_div:
  fixes f :: "real \<Rightarrow> real"
  shows "sum_list (map (\<lambda>x. f x / c) xs) = sum_list (map f xs) / c"
  by (induction xs) (simp_all add: add_divide_distrib)

section \<open>The pseudo-label vector\<close>




section \<open>An empty label set\<close>

text \<open>
  Claim C6, as stated, fails: there is no fallback. On two samples with equal entropy
  scores the clustering puts every sample in cluster 0, cluster 1 is empty, no sample is
  known, the label set is empty, and the pass ends in \<open>ValueError\<close> instead of returning
  the value 2 for both samples.
\<close>

theorem no_fallback_counterexample:
  "obtain_label ex_fit_equal ex_metric ex_loader_equal (\<lambda>x. x) (\<lambda>x. x) ex_netC (ex_cfg 0)
     = Inl ValueError"
proof -
  have ne: "ex_loader_equal \<noteq> []" by (simp add: ex_loader_equal_def)
  have ls: "labelset_of (threshold (ex_cfg 0))
      (cls_count_of (length (hd (Softmax [[0, - ln 9], [0, - ln 9]])))
         (take_idx (predict_of (Softmax [[0, - ln 9], [0, - ln 9]])) [])) = []"
    by (rule labelset_no_known) (simp add: ex_cfg_def)
  show ?thesis
    by (rule obtain_label_empty_labelset[where KMeans_fit = ex_fit_equal and c = "ex_cfg 0",
          OF ne ex_equal_gather _ _ ex_equal_km _ _ ex_equal_known ls])
      (simp_all add: ex_equal_Softmax ent_of_def)
qed

text \<open>
  Claim C6, amended. When the pass reaches the support filter (samples, classifier
  outputs and a clustering as in claim C1) and the label set is empty, \<open>obtain_label\<close>
  raises \<open>ValueError\<close>: it returns no pseudo-labels and falls back on nothing. That is
  the case in particular when no sample is known and the threshold is not negative.
\<close>

theorem empty_labelset_raises:
  assumes ne: "loader \<noteq> []"
    and g: "gather netF netB netC loader ([], [], []) = (all_fea, all_output, all_label)"
    and N: "all_label \<noteq> []"
    and hd: "hd (Softmax all_output) \<noteq> []"
    and fit: "KMeans_fit (ent_of c (Softmax all_output)) = Inr km"
    and l1: "length (km_labels km) = length all_label"
    and l2: "length (km_predict km (ent_of c (Softmax all_output))) = length all_label"
    and known: "known_idx = known_idx_of km (iidx_of (ent_of c (Softmax all_output))
                   (km_predict km (ent_of c (Softmax all_output))))"
  shows "(labelset_of (threshold c) (cls_count_of (length (hd (Softmax all_output)))
               (take_idx (predict_of (Softmax all_output)) known_idx)) = []
          \<longrightarrow> obtain_label KMeans_fit metric loader netF netB netC c = Inl ValueError)
       \<and> (known_idx = [] \<and> 0 \<le> threshold c
          \<longrightarrow> obtain_label KMeans_fit metric loader netF netB netC c = Inl ValueError)"
proof (intro conjI impI)
  assume "labelset_of (threshold c) (cls_count_of (length (hd (Softmax all_output)))
               (take_idx (predict_of (Softmax all_output)) known_idx)) = []"
  from obtain_label_empty_labelset[where KMeans_fit = KMeans_fit and c = c, OF ne g N hd fit l1 l2 known this]
  show "obtain_label KMeans_fit metric loader netF netB netC c = Inl ValueError" .
next
  assume a: "known_idx = [] \<and> 0 \<le> threshold c"
  then have "labelset_of (threshold c) (cls_count_of (length (hd (Softmax all_output)))
               (take_idx (predict_of (Softmax all_output)) known_idx)) = []"
    using labelset_no_known[of "threshold c"] by simp
  from obtain_label_empty_labelset[where KMeans_fit = KMeans_fit and c = c, OF ne g N hd fit l1 l2 known this]
  show "obtain_label KMeans_fit metric loader netF netB netC c = Inl ValueError" .
qed

text \<open>
  The theorem at the example pass with threshold 2, which no class count exceeds,
  and at the pass on two samples of equal score, where no sample is known.
\<close>

theorem empty_labelset_raises_witness:
  "obtain_label ex_fit ex_metric ex_loader (\<lambda>x. x) (\<lambda>x. x) ex_netC (ex_cfg 2) = Inl ValueError
   \<and> obtain_label ex_fit_equal ex_metric ex_loader_equal (\<lambda>x. x) (\<lambda>x. x) ex_netC (ex_cfg 1)
       = Inl ValueError"
proof
  let ?O = "[[0, - ln 9], [0, - ln 9], [- ln 9, 0], [- ln 9, 0], [0, 0]] :: matrix"
  let ?L = "[0, 0, 1, 1, 2] :: vec"
  let ?c = "ex_cfg 2"
  let ?km = "\<lparr>km_labels = [0, 0, 0, 0, 1],
          km_cluster_centers = [Entropy (1 / 100000) 2 [9 / 10, 1 / 10],
                                Entropy (1 / 100000) 2 [1 / 2, 1 / 2]],
          km_predict = (\<lambda>_. [0, 0, 0, 0, 1])\<rparr>"
  have ne: "ex_loader \<noteq> []" by (simp add: ex_loader_def)
  have N: "?L \<noteq> []" by simp
  have hd: "hd (Softmax ?O) \<noteq> []" by (simp add: ex_Softmax)
  have l1: "length (km_labels ?km) = length ?L" by simp
  have l2: "length (km_predict ?km (ent_of ?c (Softmax ?O))) = length ?L" by simp
  have known: "[0, 1, 2, 3] = known_idx_of ?km (iidx_of (ent_of ?c (Softmax ?O))
                   (km_predict ?km (ent_of ?c (Softmax ?O))))"
    using ex_known_idx[of _ 2] by simp
  have ls: "labelset_of (threshold ?c) (cls_count_of (length (hd (Softmax ?O)))
               (take_idx (predict_of (Softmax ?O)) [0, 1, 2, 3])) = []"
    by (simp add: ex_cfg_def ex_Softmax ex_predict refine_eval)
  from empty_labelset_raises[where KMeans_fit = ex_fit and metric = ex_metric and c = ?c,
      OF ne ex_gather N hd ex_km l1 l2 known] ls
  show "obtain_label ex_fit ex_metric ex_loader (\<lambda>x. x) (\<lambda>x. x) ex_netC ?c = Inl ValueError"
    by blast
next
  let ?O = "[[0, - ln 9], [0, - ln 9]] :: matrix"
  let ?L = "[0, 0] :: vec"
  let ?c = "ex_cfg 1"
  let ?km = "\<lparr>km_labels = [0, 0],
            km_cluster_centers = [Entropy (1 / 100000) 2 [9 / 10, 1 / 10],
                                  Entropy (1 / 100000) 2 [9 / 10, 1 / 10]],
            km_predict = (\<lambda>x. replicate (length x) 0)\<rparr>"
  have ne: "ex_loader_equal \<noteq> []" by (simp add: ex_loader_equal_def)
  have N: "?L \<noteq> []" by simp
  have hd: "hd (Softmax ?O) \<noteq> []" by (simp add: ex_equal_Softmax)
  have l1: "length (km_labels ?km) = length ?L" by simp
  have l2: "length (km_predict ?km (ent_of ?c (Softmax ?O))) = length ?L"
    by (simp add: ent_of_def)
  have thr: "([]::nat list) = [] \<and> 0 \<le> threshold ?c" by (simp add: ex_cfg_def)
  from empty_labelset_raises[where KMeans_fit = ex_fit_equal and metric = ex_metric and c = ?c,
      OF ne ex_equal_gather N hd ex_equal_km l1 l2 ex_equal_known] thr
  show "obtain_label ex_fit_equal ex_metric ex_loader_equal (\<lambda>x. x) (\<lambda>x. x) ex_netC ?c
          = Inl ValueError"
    by blast
qed

section \<open>The distribution that is scored\<close>

text \<open>
  Line 51 applies the softmax to the output of the classifier, whatever it is, and lines
  52 to 58 read the result; the source holds no check of either. Over the reals the
  softmax of a row that is not empty has positive entries of sum 1, so the entropy of
  line 58 is never taken of a row with a negative entry or with another sum. In the
  floating-point arithmetic of the source a row can hold a not-a-number, which the reals
  of this development do not represent.
\<close>

lemma Softmax_row_distribution:
  assumes "i < length all_output" and "all_output ! i \<noteq> []"
  shows "list_all (\<lambda>p. 0 < p) (Softmax all_output ! i)"
    and "sum_list (Softmax all_output ! i) = 1"
proof -
  let ?xs = "all_output ! i"
  have pos: "0 < sum_list (map exp ?xs)" by (rule sum_exp_pos[OF assms(2)])
  have row: "Softmax all_output ! i = softmax_row ?xs" using assms(1) by (simp add: Softmax_def)
  show "list_all (\<lambda>p. 0 < p) (Softmax all_output ! i)"
    unfolding row using pos by (auto simp: softmax_row_def list_all_iff)
  show "sum_list (Softmax all_output ! i) = 1"
    unfolding row using pos by (simp add: softmax_row_def sum_list_div)
qed

section \<open>The number of rounds\<close>

lemma ex_drift_gather:
  "gather (\<lambda>x. x) (\<lambda>x. x) ex_netC ex_loader_drift ([], [], [])
     = ([[- 20], [- 5], [- 2], [0], [8], [5]],
        [[0, - ln 9], [0, - ln 9], [0, - ln 9], [0, - ln 9], [- ln 9, 0], [0, 0]],
        [0, 0, 0, 1, 1, 2])"
  by (simp add: ex_loader_drift_def ex_netC_def Let_def)

lemma ex_drift_Softmax:
  "Softmax [[0, - ln 9], [0, - ln 9], [0, - ln 9], [0, - ln 9], [- ln 9, 0], [0, 0]]
     = [[9 / 10, 1 / 10], [9 / 10, 1 / 10], [9 / 10, 1 / 10], [9 / 10, 1 / 10],
        [1 / 10, 9 / 10], [1 / 2, 1 / 2]]"
  by (simp add: Softmax_def ex_softmax_rows)

lemma ex_drift_ent:
  "ent_of (ex_cfg thr)
     [[9 / 10, 1 / 10], [9 / 10, 1 / 10], [9 / 10, 1 / 10], [9 / 10, 1 / 10],
      [1 / 10, 9 / 10], [1 / 2, 1 / 2]]
   = [Entropy (1 / 100000) 2 [9 / 10, 1 / 10], Entropy (1 / 100000) 2 [9 / 10, 1 / 10],
      Entropy (1 / 100000) 2 [9 / 10, 1 / 10], Entropy (1 / 100000) 2 [9 / 10, 1 / 10],
      Entropy (1 / 100000) 2 [9 / 10, 1 / 10], Entropy (1 / 100000) 2 [1 / 2, 1 / 2]]"
  by (simp add: ent_of_def ex_cfg_def Entropy_swap[of _ _ "1 / 10" "9 / 10"])

lemma ex_drift_predict:
  "predict_of
     [[9 / 10, 1 / 10], [9 / 10, 1 / 10], [9 / 10, 1 / 10], [9 / 10, 1 / 10],
      [1 / 10, 9 / 10], [1 / 2, 1 / 2]]
   = [0, 0, 0, 0, 1, 0]"
  by (simp add: predict_of_def)

lemma ex_drift_iidx:
  "iidx_of [ec, ec, ec, ec, ec, eu] [0, 0, 0, 0, 0, 1] = (if ec < eu then 1 else 0)"
proof -
  have "iidx_of [ec, ec, ec, ec, ec, eu] [0, 0, 0, 0, 0, 1] = (if ec < eu then 1 else 0)"
    by (rule iidx_of_both) (simp_all add: np_where_def take_idx_def mean_def)
  then show ?thesis .
qed

lemma ex_drift_km:
  "ex_fit_drift (ent_of (ex_cfg thr) (Softmax
        [[0, - ln 9], [0, - ln 9], [0, - ln 9], [0, - ln 9], [- ln 9, 0], [0, 0]]))
   = Inr \<lparr>km_labels = [0, 0, 0, 0, 0, 1],
          km_cluster_centers = [Entropy (1 / 100000) 2 [9 / 10, 1 / 10],
                                Entropy (1 / 100000) 2 [1 / 2, 1 / 2]],
          km_predict = (\<lambda>_. [0, 0, 0, 0, 0, 1])\<rparr>"
  by (simp add: ex_fit_drift_def ex_drift_Softmax ex_drift_ent)

lemma ex_drift_known_idx:
  "known_idx_of \<lparr>km_labels = [0, 0, 0, 0, 0, 1], km_cluster_centers = cs,
                  km_predict = (\<lambda>_. [0, 0, 0, 0, 0, 1])\<rparr>
     (iidx_of (ent_of (ex_cfg thr) (Softmax
        [[0, - ln 9], [0, - ln 9], [0, - ln 9], [0, - ln 9], [- ln 9, 0], [0, 0]]))
        [0, 0, 0, 0, 0, 1])
   = [0, 1, 2, 3, 4]"
proof -
  have i: "iidx_of (ent_of (ex_cfg thr) (Softmax
        [[0, - ln 9], [0, - ln 9], [0, - ln 9], [0, - ln 9], [- ln 9, 0], [0, 0]]))
        [0, 0, 0, 0, 0, 1] = 1"
    unfolding ex_drift_Softmax ex_drift_ent ex_drift_iidx using ex_entropy_less by simp
  show ?thesis unfolding i by (simp add: known_idx_of_def np_where_def)
qed

lemma ex_drift_soft:
  "map (\<lambda>x. [0, 1] ! argmin (map (euclidean x)
        (take_idx (initc_of 2 1
           [[9 / 10, 1 / 10], [9 / 10, 1 / 10], [9 / 10, 1 / 10], [9 / 10, 1 / 10],
            [1 / 10, 9 / 10]]
           [[- 20], [- 5], [- 2], [0], [8]]) [0, 1])))
     [[- 20], [- 5], [- 2], [0], [8]] = [0, 0, 0, 1, 1]"
  by (simp add: refine_eval)

lemma ex_drift_hard:
  "map (\<lambda>x. [0, 1] ! argmin (map (euclidean x)
        (take_idx (initc_of 2 1 (eye_rows 2 [0, 0, 0, 1, 1])
           [[- 20], [- 5], [- 2], [0], [8]]) [0, 1])))
     [[- 20], [- 5], [- 2], [0], [8]] = [0, 0, 1, 1, 1]"
  by (simp add: refine_eval)

text \<open>
  Claim C9, as stated, fails: not every pass runs a round of the loop, nor runs to
  completion. On the six samples of the example the classifier predicts class 0 for four
  of the five known samples and class 1 for one. With a threshold of 4 no class count
  is above the threshold, the label set is empty, the pass with the soft weights ends in
  the \<open>ValueError\<close> of \<open>argmin\<close> (line 87), and \<open>obtain_label\<close> ends with it: the loop of
  line 90 is never entered.
\<close>

theorem rounds_skipped_counterexample:
  "round0 euclidean 4 2 1 [[- 20], [- 5], [- 2], [0], [8]]
      [[9 / 10, 1 / 10], [9 / 10, 1 / 10], [9 / 10, 1 / 10], [9 / 10, 1 / 10], [1 / 10, 9 / 10]]
      [0, 0, 0, 0, 1] = Inl ValueError
   \<and> obtain_label ex_fit_drift ex_metric ex_loader_drift (\<lambda>x. x) (\<lambda>x. x) ex_netC (ex_cfg 4)
       = Inl ValueError"
proof
  show "round0 euclidean 4 2 1 [[- 20], [- 5], [- 2], [0], [8]]
      [[9 / 10, 1 / 10], [9 / 10, 1 / 10], [9 / 10, 1 / 10], [9 / 10, 1 / 10], [1 / 10, 9 / 10]]
      [0, 0, 0, 0, 1] = Inl ValueError"
    by (simp add: refine_eval)
next
  let ?O = "[[0, - ln 9], [0, - ln 9], [0, - ln 9], [0, - ln 9], [- ln 9, 0], [0, 0]] :: matrix"
  let ?L = "[0, 0, 0, 1, 1, 2] :: vec"
  let ?c = "ex_cfg 4"
  let ?km = "\<lparr>km_labels = [0, 0, 0, 0, 0, 1],
          km_cluster_centers = [Entropy (1 / 100000) 2 [9 / 10, 1 / 10],
                                Entropy (1 / 100000) 2 [1 / 2, 1 / 2]],
          km_predict = (\<lambda>_. [0, 0, 0, 0, 0, 1])\<rparr>"
  have ne: "ex_loader_drift \<noteq> []" by (simp add: ex_loader_drift_def)
  have ls: "labelset_of (threshold ?c) (cls_count_of (length (hd (Softmax ?O)))
               (take_idx (predict_of (Softmax ?O)) [0, 1, 2, 3, 4])) = []"
    by (simp add: ex_cfg_def ex_drift_Softmax ex_drift_predict refine_eval)
  have known: "[0, 1, 2, 3, 4] = known_idx_of ?km (iidx_of (ent_of ?c (Softmax ?O))
                   (km_predict ?km (ent_of ?c (Softmax ?O))))"
    using ex_drift_known_idx[of _ 4] by simp
  show "obtain_label ex_fit_drift ex_metric ex_loader_drift (\<lambda>x. x) (\<lambda>x. x) ex_netC ?c
          = Inl ValueError"
    by (rule obtain_label_empty_labelset[where KMeans_fit = ex_fit_drift and c = ?c,
          OF ne ex_drift_gather _ _ ex_drift_km _ _ known ls])
      (simp_all add: ex_drift_Softmax)
qed

text \<open>
  Claim C9, amended. When the pass reaches the refinement (samples, classifier outputs
  and a clustering as in claim C1), with \<open>fea\<close> and \<open>aff\<close> the features and the softmax
  output of the known samples:

  \<^item> if the label set is empty, the pass with the soft weights raises \<open>ValueError\<close>, no
    round follows and \<open>obtain_label\<close> raises \<open>ValueError\<close>;

  \<^item> otherwise \<open>obtain_label\<close> returns, and the labels it returns for the known samples
    are \<open>p1\<close>, where \<open>p0\<close> gives every sample the class of the label set whose prototype
    under the soft weights \<open>aff\<close> is nearest, and \<open>p1\<close> gives every sample the class of the
    label set whose prototype under the one-hot weights of \<open>p0\<close> is nearest: the pass with
    the soft weights, then one round of prototype building and assignment, and no
    other. The number of rounds is not read from the configuration, and the labels are
    returned whether or not a further round would change them.
\<close>

theorem obtain_label_one_round:
  assumes ne: "loader \<noteq> []"
    and g: "gather netF netB netC loader ([], [], []) = (all_fea, all_output, all_label)"
    and N: "all_label \<noteq> []"
    and hd: "hd (Softmax all_output) \<noteq> []"
    and fit: "KMeans_fit (ent_of c (Softmax all_output)) = Inr km"
    and l1: "length (km_labels km) = length all_label"
    and l2: "length (km_predict km (ent_of c (Softmax all_output))) = length all_label"
    and known: "known_idx = known_idx_of km (iidx_of (ent_of c (Softmax all_output))
                   (km_predict km (ent_of c (Softmax all_output))))"
    and K: "K = length (hd (Softmax all_output))"
    and D: "D = length (hd (fea_of c all_fea))"
    and fea: "fea = take_idx (fea_of c all_fea) known_idx"
    and aff: "aff = take_idx (Softmax all_output) known_idx"
    and ls: "labelset = labelset_of (threshold c)
               (cls_count_of K (take_idx (predict_of (Softmax all_output)) known_idx))"
    and p0: "p0 = map (\<lambda>x. labelset ! argmin (map (metric (distance c) x)
                     (take_idx (initc_of K D aff fea) labelset))) fea"
    and p1: "p1 = map (\<lambda>x. labelset ! argmin (map (metric (distance c) x)
                     (take_idx (initc_of K D (eye_rows K p0) fea) labelset))) fea"
  shows "(labelset = [] \<longrightarrow>
            round0 (metric (distance c)) (threshold c) K D fea aff
              (take_idx (predict_of (Softmax all_output)) known_idx) = Inl ValueError
            \<and> obtain_label KMeans_fit metric loader netF netB netC c = Inl ValueError)
       \<and> (labelset \<noteq> [] \<longrightarrow>
            obtain_label KMeans_fit metric loader netF netB netC c
              = Inr \<lparr>guess_label = guess_label_of (class_num c) (length all_label) known_idx p1,
                     ENT_THRESHOLD = ENT_THRESHOLD_of km,
                     before_acc = before_acc_of (predict_of (Softmax all_output)) all_label,
                     after_acc = after_acc_of
                       (guess_label_of (class_num c) (length all_label) known_idx p1)
                       all_label known_idx\<rparr>)"
proof (intro conjI impI)
  let ?out = "Softmax all_output"
  let ?fea = "fea_of c all_fea"
  let ?pr = "take_idx (predict_of ?out) known_idx"
  have pass: "obtain_label KMeans_fit metric loader netF netB netC c
          = known_pass metric c km ?fea ?out all_label"
    using obtain_label_eq[OF ne g]
      label_pass_eq[where fit = KMeans_fit and c = c and ?out0.0 = all_output, OF N hd fit]
    by simp
  have kp: "known_pass metric c km ?fea ?out all_label =
     (case refine 1 (metric (distance c)) (threshold c) K D fea aff ?pr of
        Inl e \<Rightarrow> Inl e
      | Inr pl \<Rightarrow>
          Inr \<lparr>guess_label = guess_label_of (class_num c) (length all_label) known_idx pl,
               ENT_THRESHOLD = ENT_THRESHOLD_of km,
               before_acc = before_acc_of (predict_of ?out) all_label,
               after_acc = after_acc_of
                 (guess_label_of (class_num c) (length all_label) known_idx pl)
                 all_label known_idx\<rparr>)"
  proof -
    have "in_range (np_where (\<lambda>l. l = 1) (km_predict km (ent_of c ?out))) (length all_label)"
      using l2 by (intro in_range_np_where) simp
    moreover have "in_range known_idx (length all_label)"
      unfolding known known_idx_of_def using l1 by (intro in_range_np_where) simp
    ultimately show ?thesis
      unfolding K D fea aff known_pass_def Let_def known[symmetric] by simp
  qed
  {
    assume e: "labelset = []"
    then have e': "labelset_of (threshold c) (cls_count_of K ?pr) = []" using ls by simp
    then show "round0 (metric (distance c)) (threshold c) K D fea aff ?pr = Inl ValueError"
      by (simp add: round0_def assign_empty)
    show "obtain_label KMeans_fit metric loader netF netB netC c = Inl ValueError"
      unfolding pass kp using refine_empty[OF e'] by simp
  next
    assume n: "labelset \<noteq> []"
    have r0: "round0 (metric (distance c)) (threshold c) K D fea aff ?pr = Inr p0"
      using n unfolding p0 ls by (simp add: round0_def assign_def cdist_def Let_def)
    have r1: "round_step (metric (distance c)) K D fea labelset p0 = Inr p1"
      using n unfolding p1 by (simp add: round_step_def assign_def cdist_def Let_def)
    have "refine 1 (metric (distance c)) (threshold c) K D fea aff ?pr = Inr p1"
      using r0 r1 by (simp add: refine_def ls[symmetric])
    then show "obtain_label KMeans_fit metric loader netF netB netC c
              = Inr \<lparr>guess_label = guess_label_of (class_num c) (length all_label) known_idx p1,
                     ENT_THRESHOLD = ENT_THRESHOLD_of km,
                     before_acc = before_acc_of (predict_of ?out) all_label,
                     after_acc = after_acc_of
                       (guess_label_of (class_num c) (length all_label) known_idx p1)
                       all_label known_idx\<rparr>"
      unfolding pass kp by simp
  }
qed

text \<open>
  The theorem at the example pass on six samples. With threshold 0 the pass with the
  soft weights labels the known samples 0, 0, 0, 1, 1; the round of the loop moves the
  third sample to class 1, and the pass returns 0, 0, 1, 1, 1 for them and 2 for the
  sixth sample. A second round would move the second sample as well: the labels that
  are returned have not converged. With threshold 7 the label set is empty.
\<close>

theorem obtain_label_one_round_witness:
  "obtain_label ex_fit_drift ex_metric ex_loader_drift (\<lambda>x. x) (\<lambda>x. x) ex_netC (ex_cfg 0)
     = Inr \<lparr>guess_label = [0, 0, 1, 1, 1, 2],
            ENT_THRESHOLD = (Entropy (1 / 100000) 2 [9 / 10, 1 / 10]
                             + Entropy (1 / 100000) 2 [1 / 2, 1 / 2]) / 2,
            before_acc = 2 / 3,
            after_acc = Some 1\<rparr>
   \<and> round0 euclidean 0 2 1 [[- 20], [- 5], [- 2], [0], [8]]
       [[9 / 10, 1 / 10], [9 / 10, 1 / 10], [9 / 10, 1 / 10], [9 / 10, 1 / 10], [1 / 10, 9 / 10]]
       [0, 0, 0, 0, 1] = Inr [0, 0, 0, 1, 1]
   \<and> refine 2 euclidean 0 2 1 [[- 20], [- 5], [- 2], [0], [8]]
       [[9 / 10, 1 / 10], [9 / 10, 1 / 10], [9 / 10, 1 / 10], [9 / 10, 1 / 10], [1 / 10, 9 / 10]]
       [0, 0, 0, 0, 1] = Inr [0, 1, 1, 1, 1]
   \<and> obtain_label ex_fit_drift ex_metric ex_loader_drift (\<lambda>x. x) (\<lambda>x. x) ex_netC (ex_cfg 7)
       = Inl ValueError"
proof (intro conjI)
  let ?O = "[[0, - ln 9], [0, - ln 9], [0, - ln 9], [0, - ln 9], [- ln 9, 0], [0, 0]] :: matrix"
  let ?F = "[[- 20], [- 5], [- 2], [0], [8], [5]] :: matrix"
  let ?Fk = "[[- 20], [- 5], [- 2], [0], [8]] :: matrix"
  let ?Ak = "[[9 / 10, 1 / 10], [9 / 10, 1 / 10], [9 / 10, 1 / 10], [9 / 10, 1 / 10],
              [1 / 10, 9 / 10]] :: matrix"
  let ?L = "[0, 0, 0, 1, 1, 2] :: vec"
  let ?c = "ex_cfg 0"
  let ?km = "\<lparr>km_labels = [0, 0, 0, 0, 0, 1],
          km_cluster_centers = [Entropy (1 / 100000) 2 [9 / 10, 1 / 10],
                                Entropy (1 / 100000) 2 [1 / 2, 1 / 2]],
          km_predict = (\<lambda>_. [0, 0, 0, 0, 0, 1])\<rparr>"
  have ne: "ex_loader_drift \<noteq> []" by (simp add: ex_loader_drift_def)
  have N: "?L \<noteq> []" by simp
  have hd: "hd (Softmax ?O) \<noteq> []" by (simp add: ex_drift_Softmax)
  have l1: "length (km_labels ?km) = length ?L" by simp
  have l2: "length (km_predict ?km (ent_of ?c (Softmax ?O))) = length ?L" by simp
  have known: "[0, 1, 2, 3, 4] = known_idx_of ?km (iidx_of (ent_of ?c (Softmax ?O))
                   (km_predict ?km (ent_of ?c (Softmax ?O))))"
    using ex_drift_known_idx[of _ 0] by simp
  have K: "2 = length (hd (Softmax ?O))" by (simp add: ex_drift_Softmax)
  have D: "1 = length (hd (fea_of ?c ?F))" by (simp add: fea_of_def ex_cfg_def)
  have fea: "?Fk = take_idx (fea_of ?c ?F) [0, 1, 2, 3, 4]"
    by (simp add: fea_of_def ex_cfg_def take_idx_def)
  have aff: "?Ak = take_idx (Softmax ?O) [0, 1, 2, 3, 4]"
    by (simp add: ex_drift_Softmax take_idx_def)
  have ls: "[0, 1] = labelset_of (threshold ?c)
               (cls_count_of 2 (take_idx (predict_of (Softmax ?O)) [0, 1, 2, 3, 4]))"
    by (simp add: ex_cfg_def ex_drift_Softmax ex_drift_predict refine_eval)
  have m: "ex_metric (distance ?c) = euclidean" by (simp add: ex_metric_def)
  have p0: "[0, 0, 0, 1, 1] = map (\<lambda>x. [0, 1] ! argmin (map (ex_metric (distance ?c) x)
                     (take_idx (initc_of 2 1 ?Ak ?Fk) [0, 1]))) ?Fk"
    unfolding m ex_drift_soft ..
  have p1: "[0, 0, 1, 1, 1] = map (\<lambda>x. [0, 1] ! argmin (map (ex_metric (distance ?c) x)
                     (take_idx (initc_of 2 1 (eye_rows 2 [0, 0, 0, 1, 1]) ?Fk) [0, 1]))) ?Fk"
    unfolding m ex_drift_hard ..
  have g: "guess_label_of 2 6 [0, 1, 2, 3, 4] [0, 0, 1, 1, 1] = [0, 0, 1, 1, 1, 2]"
    by (simp add: guess_label_of_def eval_nat_numeral)
  have v: "class_num ?c = 2" "length ?L = 6"
    "ENT_THRESHOLD_of ?km = (Entropy (1 / 100000) 2 [9 / 10, 1 / 10]
                               + Entropy (1 / 100000) 2 [1 / 2, 1 / 2]) / 2"
    "before_acc_of (predict_of (Softmax ?O)) ?L = 2 / 3"
    "after_acc_of [0, 0, 1, 1, 1, 2] ?L [0, 1, 2, 3, 4] = Some 1"
    by (simp_all add: ex_cfg_def ex_drift_Softmax ex_drift_predict ENT_THRESHOLD_of_def
        before_acc_of_def after_acc_of_def count_eq_def)
  from obtain_label_one_round[where KMeans_fit = ex_fit_drift and metric = ex_metric
      and c = ?c, OF ne ex_drift_gather N hd ex_drift_km l1 l2 known K D fea aff ls p0 p1]
  have "obtain_label ex_fit_drift ex_metric ex_loader_drift (\<lambda>x. x) (\<lambda>x. x) ex_netC ?c
     = Inr \<lparr>guess_label = guess_label_of (class_num ?c) (length ?L) [0, 1, 2, 3, 4]
                             [0, 0, 1, 1, 1],
            ENT_THRESHOLD = ENT_THRESHOLD_of ?km,
            before_acc = before_acc_of (predict_of (Softmax ?O)) ?L,
            after_acc = after_acc_of
              (guess_label_of (class_num ?c) (length ?L) [0, 1, 2, 3, 4] [0, 0, 1, 1, 1])
              ?L [0, 1, 2, 3, 4]\<rparr>"
    by simp
  then show "obtain_label ex_fit_drift ex_metric ex_loader_drift (\<lambda>x. x) (\<lambda>x. x) ex_netC ?c
     = Inr \<lparr>guess_label = [0, 0, 1, 1, 1, 2],
            ENT_THRESHOLD = (Entropy (1 / 100000) 2 [9 / 10, 1 / 10]
                             + Entropy (1 / 100000) 2 [1 / 2, 1 / 2]) / 2,
            before_acc = 2 / 3,
            after_acc = Some 1\<rparr>"
    unfolding v g .
next
  show "round0 euclidean 0 2 1 [[- 20], [- 5], [- 2], [0], [8]]
       [[9 / 10, 1 / 10], [9 / 10, 1 / 10], [9 / 10, 1 / 10], [9 / 10, 1 / 10], [1 / 10, 9 / 10]]
       [0, 0, 0, 0, 1] = Inr [0, 0, 0, 1, 1]"
    by (simp add: refine_eval)
next
  show "refine 2 euclidean 0 2 1 [[- 20], [- 5], [- 2], [0], [8]]
       [[9 / 10, 1 / 10], [9 / 10, 1 / 10], [9 / 10, 1 / 10], [9 / 10, 1 / 10], [1 / 10, 9 / 10]]
       [0, 0, 0, 0, 1] = Inr [0, 1, 1, 1, 1]"
    by (simp add: refine_eval)
next
  let ?O = "[[0, - ln 9], [0, - ln 9], [0, - ln 9], [0, - ln 9], [- ln 9, 0], [0, 0]] :: matrix"
  let ?F = "[[- 20], [- 5], [- 2], [0], [8], [5]] :: matrix"
  let ?Fk = "[[- 20], [- 5], [- 2], [0], [8]] :: matrix"
  let ?Ak = "[[9 / 10, 1 / 10], [9 / 10, 1 / 10], [9 / 10, 1 / 10], [9 / 10, 1 / 10],
              [1 / 10, 9 / 10]] :: matrix"
  let ?L = "[0, 0, 0, 1, 1, 2] :: vec"
  let ?c = "ex_cfg 7"
  let ?km = "\<lparr>km_labels = [0, 0, 0, 0, 0, 1],
          km_cluster_centers = [Entropy (1 / 100000) 2 [9 / 10, 1 / 10],
                                Entropy (1 / 100000) 2 [1 / 2, 1 / 2]],
          km_predict = (\<lambda>_. [0, 0, 0, 0, 0, 1])\<rparr>"
  have ne: "ex_loader_drift \<noteq> []" by (simp add: ex_loader_drift_def)
  have N: "?L \<noteq> []" by simp
  have hd: "hd (Softmax ?O) \<noteq> []" by (simp add: ex_drift_Softmax)
  have l1: "length (km_labels ?km) = length ?L" by simp
  have l2: "length (km_predict ?km (ent_of ?c (Softmax ?O))) = length ?L" by simp
  have known: "[0, 1, 2, 3, 4] = known_idx_of ?km (iidx_of (ent_of ?c (Softmax ?O))
                   (km_predict ?km (ent_of ?c (Softmax ?O))))"
    using ex_drift_known_idx[of _ 7] by simp
  have ls: "[] = labelset_of (threshold ?c)
               (cls_count_of (length (hd (Softmax ?O)))
                  (take_idx (predict_of (Softmax ?O)) [0, 1, 2, 3, 4]))"
    by (simp add: ex_cfg_def ex_drift_Softmax ex_drift_predict refine_eval)
  from obtain_label_one_round[where KMeans_fit = ex_fit_drift and metric = ex_metric
      and c = ?c, OF ne ex_drift_gather N hd ex_drift_km l1 l2 known refl refl refl refl ls
      refl refl]
  show "obtain_label ex_fit_drift ex_metric ex_loader_drift (\<lambda>x. x) (\<lambda>x. x) ex_netC ?c
          = Inl ValueError"
    by simp
qed

end
